theory Spec2Isabelle
  imports Complex_Main
begin

section \<open>Float arithmetic\<close>

text \<open>
  Python \<open>float\<close> and numpy \<open>float64\<close> are the IEEE-754 binary64 format. A finite value
  of the format is modelled as the real number it denotes: the numbers \<open>k * 2 ^ e\<close> with
  \<open>|k| < 2 ^ 53\<close> and \<open>- 1074 \<le> e\<close>. NaN, the infinities (hence results beyond the largest
  finite value) and the sign of zero are outside this model.

  IEEE-754 gives the result of \<open>+\<close>, \<open>-\<close>, \<open>*\<close>, \<open>/\<close> and \<open>sqrt\<close> as the exact result
  rounded to the nearest value of the format, a tie going to the value with the even
  significand. \<open>binary64\<close> is this rounding: the values of the binade \<open>[2 ^ b, 2 ^ (b + 1))\<close>
  are the multiples of \<open>2 ^ (b - 52)\<close>, and below \<open>2 ^ (- 1022)\<close> (subnormal values) the
  multiples of \<open>2 ^ (- 1074)\<close>. It is also what \<open>float()\<close> does to a decimal numeral.
\<close>

definition pow2 :: "int \<Rightarrow> real" where
  "pow2 e = (if 0 \<le> e then 2 ^ nat e else 1 / 2 ^ nat (- e))"

definition round_half_even :: "real \<Rightarrow> int" where
  "round_half_even y =
     (let f = \<lfloor>y\<rfloor>; d = y - of_int f
      in if d < 1 / 2 then f else if 1 / 2 < d then f + 1 else if even f then f else f + 1)"

definition round_to :: "real \<Rightarrow> real \<Rightarrow> real" where
  "round_to q y = of_int (round_half_even (y / q)) * q"

definition binade :: "real \<Rightarrow> int" where
  "binade x = max \<lfloor>log 2 \<bar>x\<bar>\<rfloor> (- 1022)"

definition binary64 :: "real \<Rightarrow> real" where
  "binary64 x = (if x = 0 then 0 else round_to (pow2 (binade x - 52)) x)"

text \<open>The arithmetic operators of \<open>float\<close> and \<open>float64\<close>, and \<open>np.sqrt\<close>.\<close>

definition fadd :: "real \<Rightarrow> real \<Rightarrow> real" where
  "fadd x y = binary64 (x + y)"

definition fsub :: "real \<Rightarrow> real \<Rightarrow> real" where
  "fsub x y = binary64 (x - y)"

definition fmul :: "real \<Rightarrow> real \<Rightarrow> real" where
  "fmul x y = binary64 (x * y)"

definition fdiv :: "real \<Rightarrow> real \<Rightarrow> real" where
  "fdiv x y = binary64 (x / y)"

definition fsqrt :: "real \<Rightarrow> real" where
  "fsqrt x = binary64 (sqrt x)"

text \<open>
  Division in HOL is total (\<open>x / 0 = 0\<close>), whereas a float division by zero yields NaN
  or an infinity. \<open>checked_div\<close> reports a zero divisor as \<open>None\<close>.
\<close>

definition checked_div :: "real \<Rightarrow> real \<Rightarrow> real option" where
  "checked_div a b = (if b = 0 then None else Some (fdiv a b))"

text \<open>
  The sum of an array, \<open>np.add.reduce\<close>, belongs to numpy: the order in which it adds
  the elements is numpy's own matter, and the functions below take the sum as their
  first argument \<open>np_sum\<close>. \<open>sequential_sum\<close> adds the elements from left to right,
  starting from 0; numpy does so for an array of fewer than eight elements.
\<close>

definition sequential_sum :: "real list \<Rightarrow> real" where
  "sequential_sum xs = foldl fadd 0 xs"

text \<open>
  \<open>np.mean\<close> and \<open>np.std\<close> of an array of \<open>float64\<close>: the sum divided by the number of
  elements; the square root of the sum of the squared deviations from that mean,
  divided by the number of elements (divisor \<open>N\<close>, not \<open>N - 1\<close>), every step rounded.
\<close>

definition np_mean :: "(real list \<Rightarrow> real) \<Rightarrow> real list \<Rightarrow> real" where
  "np_mean np_sum xs = fdiv (np_sum xs) (real (length xs))"

definition np_std :: "(real list \<Rightarrow> real) \<Rightarrow> real list \<Rightarrow> real" where
  "np_std np_sum xs =
     (let arrmean = fdiv (np_sum xs) (real (length xs));
          x = map (\<lambda>v. fsub v arrmean) xs;
          x2 = map (\<lambda>d. fmul d d) x
      in fsqrt (fdiv (np_sum x2) (real (length xs))))"

section \<open>AnomalyDetector\<close>

text \<open>
  \<open>AnomalyDetector.zscore_anomaly\<close>: returns (is_anomaly, zscore, (lower, upper)).
  \<open>abs\<close> and the comparisons of floats are exact.
\<close>

definition zscore_anomaly ::
  "(real list \<Rightarrow> real) \<Rightarrow> real list \<Rightarrow> real \<Rightarrow> bool \<times> real \<times> (real \<times> real)" where
  "zscore_anomaly np_sum values threshold =
     (if length values < 2 then (False, 0, (0, 0))
      else
        let mean = np_mean np_sum values;
            std = np_std np_sum values
        in if std = 0 then (False, 0, (mean, mean))
           else
             let current = last values;
                 zscore = \<bar>fdiv (fsub current mean) std\<bar>;
                 lower = fsub mean (fmul threshold std);
                 upper = fadd mean (fmul threshold std);
                 is_anomaly = zscore > threshold
             in (is_anomaly, zscore, (lower, upper)))"

text \<open>
  \<open>AnomalyDetector.rate_of_change_anomaly\<close>: returns (is_anomaly, rate_of_change_percent).
  The slice \<open>values[-10:]\<close> of a list of at least ten elements is its last ten elements.
\<close>

definition rate_of_change_anomaly :: "real list \<Rightarrow> real \<Rightarrow> bool \<times> real" where
  "rate_of_change_anomaly values threshold =
     (if length values < 2 then (False, 0)
      else
        let recent = (if length values \<ge> 10 then drop (length values - 10) values else values)
        in if recent ! 0 = 0 then (False, 0)
           else
             let rate_change = fmul (fdiv (fsub (last recent) (recent ! 0)) (recent ! 0)) 100;
                 is_anomaly = \<bar>rate_change\<bar> > threshold
             in (is_anomaly, rate_change))"

subsection \<open>The detectors with every division checked\<close>

text \<open>
  The following variants of the same source functions make each division report a
  zero divisor as \<open>None\<close>, so that "no division by zero happens" becomes the statement
  that they return \<open>Some\<close>.
\<close>

definition np_mean_checked :: "(real list \<Rightarrow> real) \<Rightarrow> real list \<Rightarrow> real option" where
  "np_mean_checked np_sum xs = checked_div (np_sum xs) (real (length xs))"

definition np_std_checked :: "(real list \<Rightarrow> real) \<Rightarrow> real list \<Rightarrow> real option" where
  "np_std_checked np_sum xs =
     (case checked_div (np_sum xs) (real (length xs)) of
        None \<Rightarrow> None
      | Some arrmean \<Rightarrow>
          map_option fsqrt
            (checked_div (np_sum (map (\<lambda>d. fmul d d) (map (\<lambda>v. fsub v arrmean) xs)))
               (real (length xs))))"

definition zscore_anomaly_checked ::
  "(real list \<Rightarrow> real) \<Rightarrow> real list \<Rightarrow> real \<Rightarrow> (bool \<times> real \<times> (real \<times> real)) option" where
  "zscore_anomaly_checked np_sum values threshold =
     (if length values < 2 then Some (False, 0, (0, 0))
      else
        case np_mean_checked np_sum values of
          None \<Rightarrow> None
        | Some mean \<Rightarrow>
            (case np_std_checked np_sum values of
               None \<Rightarrow> None
             | Some std \<Rightarrow>
                 if std = 0 then Some (False, 0, (mean, mean))
                 else
                   (case checked_div (fsub (last values) mean) std of
                      None \<Rightarrow> None
                    | Some q \<Rightarrow>
                        Some (\<bar>q\<bar> > threshold, \<bar>q\<bar>,
                              (fsub mean (fmul threshold std), fadd mean (fmul threshold std))))))"

definition rate_of_change_anomaly_checked :: "real list \<Rightarrow> real \<Rightarrow> (bool \<times> real) option" where
  "rate_of_change_anomaly_checked values threshold =
     (if length values < 2 then Some (False, 0)
      else
        let recent = (if length values \<ge> 10 then drop (length values - 10) values else values)
        in if recent ! 0 = 0 then Some (False, 0)
           else
             (case checked_div (fsub (last recent) (recent ! 0)) (recent ! 0) of
                None \<Rightarrow> None
              | Some q \<Rightarrow> Some (\<bar>fmul q 100\<bar> > threshold, fmul q 100)))"

subsection \<open>The words of the specification\<close>

text \<open>
  The "recent sub-window" of the rate-of-change detector in the words of the
  specification: the last 10 points, or the whole series when it has fewer.
\<close>

definition recent_window :: "real list \<Rightarrow> real list" where
  "recent_window values = drop (length values - 10) values"

text \<open>
  The population mean \<open>\<mu>\<close> and the population standard deviation \<open>\<sigma>\<close> of a list, as
  the specification uses them: real numbers, nothing rounded.
\<close>

definition population_mean :: "real list \<Rightarrow> real" where
  "population_mean xs = sum_list xs / real (length xs)"

definition population_std :: "real list \<Rightarrow> real" where
  "population_std xs =
     sqrt (sum_list (map (\<lambda>x. (x - population_mean xs) ^ 2) xs) / real (length xs))"

section \<open>Data model\<close>

text \<open>
  Python \<open>str\<close> values whose length matters (the insight text, cut at 250 characters)
  are lists of Unicode code points. Fixed ASCII texts (metric names, keys, queries) are
  Isabelle strings.
\<close>

type_synonym pystr = "nat list"

text \<open>
  The \<open>context\<close> field of an alert is either empty or the text
  \<open>"Rate of change: {roc:+.1f}%"\<close>; the number is kept instead of its rendering.
\<close>

datatype alert_context = NoContext | RateOfChange real

text \<open>
  \<open>AnomalyAlert\<close>. The \<open>timestamp\<close> field holds the clock reading of
  \<open>datetime.now()\<close> instead of its ISO-8601 rendering.
\<close>

record anomaly_alert =
  metric_name :: string
  current_value :: real
  expected_range :: "real \<times> real"
  severity :: string
  timestamp :: real
  alert_context :: alert_context

text \<open>
  Exceptions that the modelled code can raise. \<open>KeyboardInterrupt\<close> is not a subclass of
  \<open>Exception\<close>, so an \<open>except Exception\<close> clause lets it pass. \<open>KeyError\<close> and
  \<open>ValueError\<close> stand for what a malformed answer of Prometheus makes
  \<open>get_metric_values\<close> raise (other malformed shapes raise \<open>TypeError\<close> or
  \<open>IndexError\<close>, to the same effect).
\<close>

datatype exn = KeyboardInterrupt | KeyError | ValueError

subsection \<open>The outside world\<close>

text \<open>
  What Prometheus sends back for \<open>query_range\<close>. A series is the list of its sample
  values, each a string that \<open>float()\<close> parses or rejects, or an object without the key
  \<open>values\<close>. \<open>PromFailure\<close> stands for everything that the \<open>except Exception\<close> clause of
  \<open>query_range\<close> catches (transport error, HTTP error status, a body that is not the
  expected JSON); \<open>PromReply ok result\<close> is a decoded body with \<open>status == 'success'\<close> iff
  \<open>ok\<close> and \<open>data.result = result\<close>.
\<close>

datatype raw_value = Numeric real | NonNumeric

datatype prom_series = Series "raw_value list" | NoValues

datatype prom_reply = PromInterrupt | PromFailure | PromReply bool "prom_series list"

text \<open>
  What the insight service does on \<open>requests.post\<close>: a timeout, another exception, or
  a response with a status code and a body that has the text at
  \<open>choices[0].message.content\<close> or has not.
\<close>

datatype insight_payload = Malformed | Content pystr

datatype insight_reply =
  InsightInterrupt | InsightTimeout | InsightException | InsightResponse nat insight_payload

text \<open>What the Discord webhook does on \<open>requests.post\<close>.\<close>

datatype webhook_reply = WebhookInterrupt | WebhookException | WebhookResponse nat

text \<open>
  The world is an oracle indexed by the instants of a run: every action that touches
  the outside (a clock reading, an HTTP request, a sleep) takes place at the instant
  \<open>tick\<close> of the state and moves it on by one. \<open>clock n\<close> is the wall-clock time
  (\<open>time.time()\<close>) at instant \<open>n\<close>. An interrupt by the user can arrive during any
  blocking call. \<open>numpy_sum\<close> is the sum of an array as the installed numpy computes it
  (\<open>np.add.reduce\<close>).
\<close>

record world =
  clock :: "nat \<Rightarrow> real"
  prometheus_api :: "nat \<Rightarrow> string \<Rightarrow> prom_reply"
  openwebui_api :: "nat \<Rightarrow> string \<times> real \<times> real \<times> real option \<Rightarrow> insight_reply"
  discord_api :: "nat \<Rightarrow> webhook_reply"
  sleep_interrupted :: "nat \<Rightarrow> bool"
  numpy_sum :: "real list \<Rightarrow> real"

subsection \<open>The monitor\<close>

text \<open>
  The fields of \<open>MinIOAnomalyMonitor\<close> that are fixed by the constructor; \<open>openwebui\<close>
  tells whether \<open>self.openwebui\<close> is set.
\<close>

record monitor =
  openwebui :: bool
  check_interval :: real
  zscore_threshold :: real
  roc_threshold :: real
  alert_cooldown :: real
  history_hours :: nat

text \<open>
  What is observed of a run: a notification attempt (\<open>send_alert\<close> called with an alert
  and an insight, at an instant, with the webhook's reply), a log record, a completed
  sleep. Only the log records that the properties below speak of are kept.
\<close>

datatype log_level = INFO | WARNING | ERROR

record notification =
  sent_alert :: anomaly_alert
  sent_insight :: pystr
  sent_at :: nat
  sent_reply :: webhook_reply

datatype event =
    Sent notification
  | Logged log_level string
  | Slept real

text \<open>
  The mutable state: the monitor's \<open>alert_cooldown_dict\<close>, the current instant, and the
  events so far, newest first.
\<close>

record monitor_state =
  alert_cooldown_dict :: "string \<rightharpoonup> real"
  tick :: nat
  trace :: "event list"

definition init_state :: monitor_state where
  "init_state = \<lparr>alert_cooldown_dict = Map.empty, tick = 0, trace = []\<rparr>"

text \<open>A call either returns a value or raises; both leave a state behind.\<close>

datatype 'a result = Return 'a monitor_state | Raise exn monitor_state

definition and_then ::
  "(monitor_state \<Rightarrow> 'a result) \<Rightarrow> ('a \<Rightarrow> monitor_state \<Rightarrow> 'b result) \<Rightarrow> monitor_state \<Rightarrow> 'b result" where
  "and_then m f s = (case m s of Return a s' \<Rightarrow> f a s' | Raise e s' \<Rightarrow> Raise e s')"

fun result_state :: "'a result \<Rightarrow> monitor_state" where
  "result_state (Return a s) = s"
| "result_state (Raise e s) = s"

definition logger :: "log_level \<Rightarrow> string \<Rightarrow> monitor_state \<Rightarrow> monitor_state" where
  "logger level msg s = s\<lparr>trace := Logged level msg # trace s\<rparr>"

definition time_time :: "world \<Rightarrow> monitor_state \<Rightarrow> real result" where
  "time_time w s = Return (clock w (tick s)) (s\<lparr>tick := Suc (tick s)\<rparr>)"

text \<open>\<open>time.sleep\<close> raises \<open>ValueError\<close> for a negative length.\<close>

definition time_sleep :: "world \<Rightarrow> real \<Rightarrow> monitor_state \<Rightarrow> unit result" where
  "time_sleep w seconds s =
     (if seconds < 0 then Raise ValueError s
      else if sleep_interrupted w (tick s)
      then Raise KeyboardInterrupt (s\<lparr>tick := Suc (tick s)\<rparr>)
      else Return () (s\<lparr>tick := Suc (tick s), trace := Slept seconds # trace s\<rparr>))"

section \<open>PrometheusConnector\<close>

text \<open>\<open>PrometheusConnector.query_range\<close>: the result list, or \<open>[]\<close> on any failure.\<close>

definition query_range :: "world \<Rightarrow> string \<Rightarrow> nat \<Rightarrow> monitor_state \<Rightarrow> prom_series list result" where
  "query_range w query hours s =
     (let s' = s\<lparr>tick := Suc (tick s)\<rparr>
      in case prometheus_api w (tick s) query of
           PromInterrupt \<Rightarrow> Raise KeyboardInterrupt s'
         | PromFailure \<Rightarrow> Return [] (logger ERROR ''Prometheus query failed'' s')
         | PromReply success res \<Rightarrow>
             if success \<and> res \<noteq> [] then Return res s' else Return [] s')"

text \<open>\<open>[float(v[1]) for v in ...]\<close>: \<open>None\<close> when some \<open>float()\<close> raises \<open>ValueError\<close>.\<close>

fun parse_values :: "raw_value list \<Rightarrow> real list option" where
  "parse_values [] = Some []"
| "parse_values (NonNumeric # vs) = None"
| "parse_values (Numeric x # vs) = map_option ((#) x) (parse_values vs)"

section \<open>OpenWebUIInsight\<close>

text \<open>
  \<open>str.strip()\<close> removes leading and trailing white space, the characters for which
  \<open>str.isspace\<close> holds.
\<close>

definition py_isspace :: "nat \<Rightarrow> bool" where
  "py_isspace c \<longleftrightarrow>
     (9 \<le> c \<and> c \<le> 13) \<or> (28 \<le> c \<and> c \<le> 32) \<or> c = 133 \<or> c = 160 \<or> c = 5760
     \<or> (8192 \<le> c \<and> c \<le> 8202) \<or> c = 8232 \<or> c = 8233 \<or> c = 8239 \<or> c = 8287
     \<or> c = 12288"

definition py_strip :: "pystr \<Rightarrow> pystr" where
  "py_strip t = rev (dropWhile py_isspace (rev (dropWhile py_isspace t)))"

text \<open>
  \<open>OpenWebUIInsight.generate_context\<close>. The four arguments only enter the prompt, which
  goes to the service; \<open>change_percent\<close> is \<open>None\<close> when the caller's float division
  had a zero divisor (NaN or an infinity, which the f-string renders without raising).
\<close>

definition generate_context ::
  "world \<Rightarrow> string \<Rightarrow> real \<Rightarrow> real \<Rightarrow> real option \<Rightarrow> monitor_state \<Rightarrow> pystr result" where
  "generate_context w metric current expected change_percent s =
     (let s' = s\<lparr>tick := Suc (tick s)\<rparr>
      in case openwebui_api w (tick s) (metric, current, expected, change_percent) of
           InsightInterrupt \<Rightarrow> Raise KeyboardInterrupt s'
         | InsightTimeout \<Rightarrow> Return [] (logger WARNING ''OpenWebUI request timeout'' s')
         | InsightException \<Rightarrow>
             Return [] (logger WARNING ''OpenWebUI insight generation failed'' s')
         | InsightResponse status_code payload \<Rightarrow>
             if status_code = 200 then
               (case payload of
                  Malformed \<Rightarrow>
                    Return [] (logger WARNING ''OpenWebUI insight generation failed'' s')
                | Content text \<Rightarrow>
                    let insight = py_strip text
                    in Return (if insight \<noteq> [] then take 250 insight else []) s')
             else Return [] (logger WARNING ''OpenWebUI API error'' s'))"

section \<open>DiscordNotifier\<close>

text \<open>
  \<open>DiscordNotifier.send_alert\<close>. The embed is built from the alert and the insight, which
  the \<open>Sent\<close> event keeps; \<open>raise_for_status\<close> raises for the status codes 400 to 599.
  The whole body is inside \<open>try ... except Exception\<close>.
\<close>

definition send_alert :: "world \<Rightarrow> anomaly_alert \<Rightarrow> pystr \<Rightarrow> monitor_state \<Rightarrow> bool result" where
  "send_alert w alert insight s =
     (let reply = discord_api w (tick s);
          s' = s\<lparr>tick := Suc (tick s),
                 trace := Sent \<lparr>sent_alert = alert, sent_insight = insight,
                                sent_at = tick s, sent_reply = reply\<rparr> # trace s\<rparr>
      in case reply of
           WebhookInterrupt \<Rightarrow> Raise KeyboardInterrupt s'
         | WebhookException \<Rightarrow> Return False (logger ERROR ''Failed to send Discord alert'' s')
         | WebhookResponse status_code \<Rightarrow>
             if 400 \<le> status_code \<and> status_code < 600
             then Return False (logger ERROR ''Failed to send Discord alert'' s')
             else Return True (logger INFO ''Alert sent to Discord'' s'))"

section \<open>MinIOAnomalyMonitor\<close>

text \<open>\<open>get_metric_values\<close>: the samples of the first series, as floats.\<close>

definition get_metric_values :: "world \<Rightarrow> monitor \<Rightarrow> string \<Rightarrow> monitor_state \<Rightarrow> real list result" where
  "get_metric_values w m query =
     and_then (query_range w query (history_hours m)) (\<lambda>results.
       case results of
         [] \<Rightarrow> Return []
       | NoValues # _ \<Rightarrow> Raise KeyError
       | Series vs # _ \<Rightarrow>
           (case parse_values vs of
              None \<Rightarrow> Raise ValueError
            | Some values \<Rightarrow> Return values))"

text \<open>\<open>_can_alert\<close>: a key without an entry counts as last alerted at time 0.\<close>

definition can_alert :: "world \<Rightarrow> monitor \<Rightarrow> string \<Rightarrow> monitor_state \<Rightarrow> bool result" where
  "can_alert w m alert_key s =
     (let last_alert = (case alert_cooldown_dict s alert_key of None \<Rightarrow> 0 | Some t \<Rightarrow> t)
      in and_then (time_time w) (\<lambda>now. Return (now - last_alert > alert_cooldown m)) s)"

text \<open>\<open>_record_alert\<close>.\<close>

definition record_alert :: "world \<Rightarrow> string \<Rightarrow> monitor_state \<Rightarrow> unit result" where
  "record_alert w alert_key =
     and_then (time_time w) (\<lambda>now s.
       Return () (s\<lparr>alert_cooldown_dict := (alert_cooldown_dict s)(alert_key \<mapsto> now)\<rparr>))"

text \<open>
  The condition \<open>detected and self._can_alert(key)\<close>: \<open>and\<close> does not evaluate its
  second operand when the first is false.
\<close>

definition detected_and_can_alert ::
  "world \<Rightarrow> monitor \<Rightarrow> bool \<Rightarrow> string \<Rightarrow> monitor_state \<Rightarrow> bool result" where
  "detected_and_can_alert w m detected alert_key =
     (if detected then can_alert w m alert_key else Return False)"

text \<open>
  The evaluators. \<open>datetime.now()\<close> reads the same clock as \<open>time.time()\<close> and is
  modelled by \<open>time_time\<close>; \<open>1e9\<close> and \<open>1e6\<close> are written out. Clock readings are real
  numbers and their differences are exact.
\<close>

definition check_storage_space :: "world \<Rightarrow> monitor \<Rightarrow> monitor_state \<Rightarrow> unit result" where
  "check_storage_space w m =
     and_then (get_metric_values w m ''minio_disk_storage_bytes_free'') (\<lambda>values.
       if values = [] then Return ()
       else
         case zscore_anomaly (numpy_sum w) values (zscore_threshold m) of
           (is_anomaly, zscore, expected) \<Rightarrow>
             and_then (detected_and_can_alert w m is_anomaly ''storage_space'') (\<lambda>go.
               if \<not> go then Return ()
               else
                 let current = last values;
                     sev = (if current < fmul (fst expected) 0.5 then ''high'' else ''medium'')
                 in and_then (time_time w) (\<lambda>now.
                      let alert = \<lparr>metric_name = ''Disk Storage - Free Space'',
                                   current_value = fdiv current 1000000000,
                                   expected_range =
                                     (fdiv (fst expected) 1000000000,
                                      fdiv (snd expected) 1000000000),
                                   severity = sev,
                                   timestamp = now,
                                   alert_context = NoContext\<rparr>
                      in and_then
                           (if openwebui m
                            then generate_context w ''minio_disk_storage_bytes_free''
                                   (fdiv current 1000000000)
                                   (fdiv (np_mean (numpy_sum w) values) 1000000000)
                                   (map_option (\<lambda>q. fmul q 100)
                                      (checked_div (fsub current (np_mean (numpy_sum w) values))
                                         (np_mean (numpy_sum w) values)))
                            else Return [])
                           (\<lambda>insight.
                              and_then (send_alert w alert insight)
                                (\<lambda>_. record_alert w ''storage_space'')))))"

definition check_request_rate :: "world \<Rightarrow> monitor \<Rightarrow> monitor_state \<Rightarrow> unit result" where
  "check_request_rate w m =
     and_then (get_metric_values w m ''rate(minio_gateway_requests_total[5m])'') (\<lambda>values.
       if values = [] then Return ()
       else
         case rate_of_change_anomaly values (roc_threshold m) of
           (is_roc_anomaly, roc) \<Rightarrow>
         case zscore_anomaly (numpy_sum w) values 2 of
           (is_zscore_anomaly, zscore, expected) \<Rightarrow>
             and_then
               (detected_and_can_alert w m (is_roc_anomaly \<or> is_zscore_anomaly)
                  ''request_rate'')
               (\<lambda>go.
                 if \<not> go then Return ()
                 else
                   let current = last values;
                       sev = (if \<bar>roc\<bar> > 200 then ''high'' else ''medium'')
                   in and_then (time_time w) (\<lambda>now.
                        let alert = \<lparr>metric_name = ''Request Rate (requests/sec)'',
                                     current_value = current,
                                     expected_range = expected,
                                     severity = sev,
                                     timestamp = now,
                                     alert_context = RateOfChange roc\<rparr>
                        in and_then
                             (if openwebui m
                              then generate_context w ''minio_gateway_requests_total''
                                     current (np_mean (numpy_sum w) values) (Some roc)
                              else Return [])
                             (\<lambda>insight.
                                and_then (send_alert w alert insight)
                                  (\<lambda>_. record_alert w ''request_rate'')))))"

text \<open>\<open>name.lower().replace(' ', '_')\<close>, for ASCII names.\<close>

definition lower_char :: "char \<Rightarrow> char" where
  "lower_char c =
     (case map_of (zip ''ABCDEFGHIJKLMNOPQRSTUVWXYZ'' ''abcdefghijklmnopqrstuvwxyz'') c of
        Some d \<Rightarrow> d
      | None \<Rightarrow> c)"

definition network_alert_key :: "string \<Rightarrow> string" where
  "network_alert_key name =
     map (\<lambda>c. if c = CHR '' '' then CHR ''_'' else c) (map lower_char name)"

text \<open>The body of the \<open>for name, values in [...]\<close> loop of \<open>check_network_traffic\<close>.\<close>

definition check_network_signal ::
  "world \<Rightarrow> monitor \<Rightarrow> string \<times> real list \<Rightarrow> monitor_state \<Rightarrow> unit result" where
  "check_network_signal w m = (\<lambda>(name, values).
     case zscore_anomaly (numpy_sum w) values (zscore_threshold m) of
       (is_anomaly, zscore, expected) \<Rightarrow>
         and_then (detected_and_can_alert w m is_anomaly (network_alert_key name)) (\<lambda>go.
           if \<not> go then Return ()
           else
             let current = last values;
                 sev = (if zscore > 4 then ''high'' else ''medium'')
             in and_then (time_time w) (\<lambda>now.
                  let alert = \<lparr>metric_name = name @ '' (bytes/sec)'',
                               current_value = fdiv current 1000000,
                               expected_range =
                                 (fdiv (fst expected) 1000000, fdiv (snd expected) 1000000),
                               severity = sev,
                               timestamp = now,
                               alert_context = NoContext\<rparr>
                  in and_then (send_alert w alert [])
                       (\<lambda>_. record_alert w (network_alert_key name)))))"

fun for_each ::
  "('a \<Rightarrow> monitor_state \<Rightarrow> unit result) \<Rightarrow> 'a list \<Rightarrow> monitor_state \<Rightarrow> unit result" where
  "for_each body [] = Return ()"
| "for_each body (x # xs) = and_then (body x) (\<lambda>_. for_each body xs)"

definition check_network_traffic :: "world \<Rightarrow> monitor \<Rightarrow> monitor_state \<Rightarrow> unit result" where
  "check_network_traffic w m =
     and_then (get_metric_values w m ''rate(minio_network_send_bytes_total[5m])'')
       (\<lambda>send_values.
     and_then (get_metric_values w m ''rate(minio_network_receive_bytes_total[5m])'')
       (\<lambda>recv_values.
          if send_values = [] \<or> recv_values = [] then Return ()
          else for_each (check_network_signal w m)
                 [(''Network Send'', send_values), (''Network Receive'', recv_values)]))"

definition error_rate_query :: string where
  "error_rate_query =
     ''rate(minio_gateway_requests_total{status=~'' @ [CHR 0x22] @ ''5..'' @ [CHR 0x22]
       @ ''}[5m])''"

definition check_error_rate :: "world \<Rightarrow> monitor \<Rightarrow> monitor_state \<Rightarrow> unit result" where
  "check_error_rate w m =
     and_then (get_metric_values w m error_rate_query) (\<lambda>values.
       if values = [] then Return ()
       else
         case zscore_anomaly (numpy_sum w) values 2 of
           (is_anomaly, zscore, expected) \<Rightarrow>
             and_then (detected_and_can_alert w m is_anomaly ''error_rate'') (\<lambda>go.
               if \<not> go then Return ()
               else
                 let current = last values;
                     sev = (if current > fmul (snd expected) 2 then ''high'' else ''medium'')
                 in and_then (time_time w) (\<lambda>now.
                      let alert = \<lparr>metric_name = ''Error Rate (5xx errors/sec)'',
                                   current_value = current,
                                   expected_range = expected,
                                   severity = sev,
                                   timestamp = now,
                                   alert_context = NoContext\<rparr>
                      in and_then
                           (if openwebui m
                            then generate_context w ''minio_gateway_requests_errors''
                                   current (np_mean (numpy_sum w) values)
                                   (if np_mean (numpy_sum w) values > 0
                                    then Some (fmul (fdiv (fsub current
                                                 (np_mean (numpy_sum w) values))
                                                 (np_mean (numpy_sum w) values)) 100)
                                    else Some 0)
                            else Return [])
                           (\<lambda>insight.
                              and_then (send_alert w alert insight)
                                (\<lambda>_. record_alert w ''error_rate'')))))"

subsection \<open>The main loop\<close>

text \<open>One pass through the body of \<open>while True\<close>.\<close>

definition cycle :: "world \<Rightarrow> monitor \<Rightarrow> monitor_state \<Rightarrow> unit result" where
  "cycle w m s =
     and_then (check_storage_space w m) (\<lambda>_.
     and_then (check_request_rate w m) (\<lambda>_.
     and_then (check_network_traffic w m) (\<lambda>_.
     and_then (check_error_rate w m) (\<lambda>_.
       time_sleep w (check_interval m)))))
       (logger INFO ''Running anomaly checks...'' s)"

text \<open>
  \<open>while True\<close> never ends by itself. The loop is run for at most \<open>fuel\<close> passes:
  \<open>Inr s\<close> says that all of them completed and the loop goes on from \<open>s\<close>; \<open>Inl (e, s)\<close>
  that a pass raised \<open>e\<close>, which leaves the loop.
\<close>

fun while_true :: "world \<Rightarrow> monitor \<Rightarrow> nat \<Rightarrow> monitor_state \<Rightarrow> (exn \<times> monitor_state) + monitor_state" where
  "while_true w m 0 s = Inr s"
| "while_true w m (Suc fuel) s =
     (case cycle w m s of
        Return _ s' \<Rightarrow> while_true w m fuel s'
      | Raise e s' \<Rightarrow> Inl (e, s'))"

text \<open>
  \<open>run\<close>: the \<open>try\<close> statement encloses the whole loop. \<open>Still_Running\<close>: the loop is
  going on after \<open>fuel\<close> passes. \<open>Returned\<close>: \<open>run()\<close> has returned; it is the last
  statement of the program, so the process ends. \<open>Propagated\<close>: an exception left
  \<open>run()\<close> (raised by the sleep of the handler).
\<close>

datatype run_result =
  Still_Running monitor_state | Returned monitor_state | Propagated exn monitor_state

definition run :: "world \<Rightarrow> monitor \<Rightarrow> nat \<Rightarrow> monitor_state \<Rightarrow> run_result" where
  "run w m fuel s =
     (case while_true w m fuel (logger INFO ''Starting monitoring loop'' s) of
        Inr s' \<Rightarrow> Still_Running s'
      | Inl (e, s') \<Rightarrow>
          if e = KeyboardInterrupt
          then Returned (logger INFO ''Shutting down gracefully...'' s')
          else
            (case time_sleep w (check_interval m) (logger ERROR ''Unexpected error'' s') of
               Return _ s'' \<Rightarrow> Returned s''
             | Raise e' s'' \<Rightarrow> Propagated e' s''))"

fun final_state :: "run_result \<Rightarrow> monitor_state" where
  "final_state (Still_Running s) = s"
| "final_state (Returned s) = s"
| "final_state (Propagated e s) = s"

section \<open>Example configurations and worlds\<close>

text \<open>The configuration block at the top of the script; its API key disables the insights.\<close>

definition reference_monitor :: monitor where
  "reference_monitor =
     \<lparr>openwebui = False, check_interval = 60, zscore_threshold = 2.5, roc_threshold = 100,
      alert_cooldown = 300, history_hours = 24\<rparr>"

text \<open>
  A world in which a hundred seconds pass between two instants, Prometheus is
  unreachable, the insight service times out and the webhook accepts every message.
  Its numpy adds from left to right; every sum taken in the examples below is exact,
  and so the same in any order.
\<close>

definition quiet_world :: world where
  "quiet_world =
     \<lparr>clock = (\<lambda>n. 1000 + 100 * real n),
      prometheus_api = (\<lambda>n query. PromFailure),
      openwebui_api = (\<lambda>n prompt. InsightTimeout),
      discord_api = (\<lambda>n. WebhookResponse 204),
      sleep_interrupted = (\<lambda>n. False),
      numpy_sum = sequential_sum\<rparr>"

text \<open>Prometheus answers with a series that has no \<open>values\<close> key.\<close>

definition malformed_world :: world where
  "malformed_world = quiet_world\<lparr>prometheus_api := (\<lambda>n query. PromReply True [NoValues])\<rparr>"

text \<open>The insight service answers, with white space around a text or with a long text.\<close>

definition chatty_world :: world where
  "chatty_world =
     quiet_world\<lparr>openwebui_api :=
       (\<lambda>n prompt. if n = 0 then InsightResponse 200 (Content [32, 72, 105, 10])
                    else if n = 1 then InsightResponse 200 (Content (replicate 300 65))
                    else InsightResponse 503 Malformed)\<rparr>"

text \<open>
  Prometheus reports a request rate that has tripled (\<open>[1, 3]\<close>: a change of 200 percent)
  and nothing else.
\<close>

definition busy_world :: world where
  "busy_world =
     quiet_world\<lparr>prometheus_api :=
       (\<lambda>n query. if query = ''rate(minio_gateway_requests_total[5m])''
                    then PromReply True [Series [Numeric 1, Numeric 3]]
                    else PromFailure)\<rparr>"

text \<open>The same, with ten seconds between two instants.\<close>

definition steady_world :: world where
  "steady_world = busy_world\<lparr>clock := (\<lambda>n. 1000 + 10 * real n)\<rparr>"

text \<open>The world of \<open>busy_world\<close> with a webhook that refuses every message.\<close>

definition refusing_world :: world where
  "refusing_world = busy_world\<lparr>discord_api := (\<lambda>n. WebhookResponse 500)\<rparr>"

text \<open>
  A series with a spike at its end, three standard deviations from the mean, and a flat
  one.
\<close>

definition spike :: "real list" where
  "spike = [0, 0, 0, 0, 0, 0, 0, 0, 0, 10]"

definition flat :: "real list" where
  "flat = [5, 5]"

text \<open>
  Prometheus reports the spike for the bytes sent; for the bytes received it has no
  series (\<open>send_only_world\<close>) or the flat one (\<open>network_world\<close>).
\<close>

definition send_only_world :: world where
  "send_only_world =
     quiet_world\<lparr>prometheus_api :=
       (\<lambda>n query. if query = ''rate(minio_network_send_bytes_total[5m])''
                    then PromReply True [Series (map Numeric spike)]
                    else PromReply True [])\<rparr>"

definition network_world :: world where
  "network_world =
     quiet_world\<lparr>prometheus_api :=
       (\<lambda>n query. if query = ''rate(minio_network_send_bytes_total[5m])''
                    then PromReply True [Series (map Numeric spike)]
                    else PromReply True [Series (map Numeric flat)])\<rparr>"

section \<open>Specification terms\<close>

text \<open>The notification attempts of a trace, newest first.\<close>

fun notifications :: "event list \<Rightarrow> notification list" where
  "notifications [] = []"
| "notifications (Sent n # es) = n # notifications es"
| "notifications (Logged level msg # es) = notifications es"
| "notifications (Slept seconds # es) = notifications es"

text \<open>
  The cooldown key that belongs to an alert: each evaluator builds alerts of one metric
  name and gates them under one key (the network evaluator: one name and key per
  signal).
\<close>

definition alert_key :: "anomaly_alert \<Rightarrow> string" where
  "alert_key a =
     (if metric_name a = ''Disk Storage - Free Space'' then ''storage_space''
      else if metric_name a = ''Request Rate (requests/sec)'' then ''request_rate''
      else if metric_name a = ''Network Send (bytes/sec)'' then ''network_send''
      else if metric_name a = ''Network Receive (bytes/sec)'' then ''network_receive''
      else if metric_name a = ''Error Rate (5xx errors/sec)'' then ''error_rate''
      else [])"

text \<open>
  \<open>spaced w c ns\<close>: any two notification attempts of \<open>ns\<close> (newest first) for the same
  key lie more than \<open>c\<close> seconds apart on the clock of \<open>w\<close>.
\<close>

fun spaced :: "world \<Rightarrow> real \<Rightarrow> notification list \<Rightarrow> bool" where
  "spaced w c [] = True"
| "spaced w c (n # ns) =
     ((\<forall>n' \<in> set ns. alert_key (sent_alert n') = alert_key (sent_alert n)
          \<longrightarrow> clock w (sent_at n) - clock w (sent_at n') > c)
      \<and> spaced w c ns)"

text \<open>
  The invariant of the monitor: every attempt lies in the past and not after the stamp
  recorded for its key, and the attempts are spaced by the cooldown.
\<close>

definition cooldown_inv :: "world \<Rightarrow> monitor \<Rightarrow> monitor_state \<Rightarrow> bool" where
  "cooldown_inv w m s \<longleftrightarrow>
     (\<forall>n \<in> set (notifications (trace s)).
        sent_at n < tick s
        \<and> (case alert_cooldown_dict s (alert_key (sent_alert n)) of
              None \<Rightarrow> False
            | Some t \<Rightarrow> clock w (sent_at n) \<le> t))
     \<and> spaced w (alert_cooldown m) (notifications (trace s))"

text \<open>
  \<open>untouched s s'\<close>: on the way from \<open>s\<close> to \<open>s'\<close> no notification was attempted and
  no cooldown entry was written.
\<close>

definition untouched :: "monitor_state \<Rightarrow> monitor_state \<Rightarrow> bool" where
  "untouched s s' \<longleftrightarrow>
     tick s \<le> tick s'
     \<and> notifications (trace s') = notifications (trace s)
     \<and> alert_cooldown_dict s' = alert_cooldown_dict s"

text \<open>
  \<open>gated w m k s r\<close> sums up what one evaluation under the key \<open>k\<close> may do on the way
  from the state \<open>s\<close> to the result \<open>r\<close>: nothing to the notifications and the cooldown
  entries; or one notification attempt for \<open>k\<close>, made after a clock reading that
  exceeded the entry of \<open>k\<close> by more than the cooldown, and followed at the next instant
  by the stamp for \<open>k\<close>, unless the attempt was interrupted.
\<close>

definition gated :: "world \<Rightarrow> monitor \<Rightarrow> string \<Rightarrow> monitor_state \<Rightarrow> unit result \<Rightarrow> bool" where
  "gated w m k s r \<longleftrightarrow>
     untouched s (result_state r)
     \<or> (\<exists>n j. tick s \<le> j \<and> j < sent_at n \<and> sent_at n < tick (result_state r)
           \<and> alert_key (sent_alert n) = k
           \<and> clock w j - (case alert_cooldown_dict s k of None \<Rightarrow> 0 | Some t \<Rightarrow> t)
               > alert_cooldown m
           \<and> notifications (trace (result_state r)) = n # notifications (trace s)
           \<and> (case r of
                 Raise e s' \<Rightarrow>
                   sent_reply n = WebhookInterrupt
                   \<and> alert_cooldown_dict s' = alert_cooldown_dict s
               | Return u s' \<Rightarrow>
                   sent_reply n \<noteq> WebhookInterrupt
                   \<and> Suc (sent_at n) < tick s'
                   \<and> alert_cooldown_dict s' =
                       (alert_cooldown_dict s)(k \<mapsto> clock w (Suc (sent_at n)))))"

text \<open>The notification attempts made on the way from \<open>s\<close> to \<open>s'\<close>, newest first.\<close>

definition attempts_since :: "monitor_state \<Rightarrow> monitor_state \<Rightarrow> notification list" where
  "attempts_since s s' =
     take (length (notifications (trace s')) - length (notifications (trace s)))
       (notifications (trace s'))"

text \<open>
  \<open>recorded_after w s r\<close>: every notification attempt made on the way from \<open>s\<close> to the
  result \<open>r\<close>, whatever the webhook answered, unless an interrupt cut it short, was
  followed at the next instant by the stamp for its key, which is still in place.
\<close>

definition recorded_after :: "world \<Rightarrow> monitor_state \<Rightarrow> unit result \<Rightarrow> bool" where
  "recorded_after w s r \<longleftrightarrow>
     (\<forall>n \<in> set (attempts_since s (result_state r)).
        sent_reply n \<noteq> WebhookInterrupt \<longrightarrow>
        alert_cooldown_dict (result_state r) (alert_key (sent_alert n))
          = Some (clock w (Suc (sent_at n))))"

text \<open>A condition on the outcome of a call: \<open>Q\<close> when it returns, \<open>E\<close> when it raises.\<close>

definition post ::
  "('a \<Rightarrow> monitor_state \<Rightarrow> bool) \<Rightarrow> (exn \<Rightarrow> monitor_state \<Rightarrow> bool) \<Rightarrow> 'a result \<Rightarrow> bool" where
  "post Q E r = (case r of Return a s \<Rightarrow> Q a s | Raise e s \<Rightarrow> E e s)"

section \<open>Properties of the rounding\<close>

lemma pow2_powr: "pow2 e = 2 powr of_int e"
proof (cases "0 \<le> e")
  case True
  then show ?thesis
    by (simp add: pow2_def powr_realpow [symmetric])
next
  case False
  then have "(2 :: real) powr of_int e = 1 / 2 powr of_int (- e)"
    by (simp add: powr_minus_divide)
  also have "\<dots> = 1 / 2 ^ nat (- e)"
    using False by (simp add: powr_realpow [symmetric])
  finally show ?thesis using False by (simp add: pow2_def)
qed

lemma pow2_pos [simp]: "0 < pow2 e"
  by (simp add: pow2_powr)

lemma pow2_nonzero [simp]: "pow2 e \<noteq> 0"
  by (metis pow2_pos less_irrefl)

lemma pow2_abs [simp]: "\<bar>pow2 e\<bar> = pow2 e"
  by (rule abs_of_pos) (rule pow2_pos)

lemma pow2_53: "pow2 53 = 9007199254740992"
  by (simp add: pow2_def)

lemma pow2_52: "pow2 52 = 4503599627370496"
  by (simp add: pow2_def)

lemma pow2_add: "pow2 (a + b) = pow2 a * pow2 b"
  by (simp add: pow2_powr powr_add)

lemma pow2_mono: "a \<le> b \<Longrightarrow> pow2 a \<le> pow2 b"
  by (simp add: pow2_powr)

lemma pow2_nonneg_int: "0 \<le> e \<Longrightarrow> pow2 e = of_int (2 ^ nat e)"
  by (simp add: pow2_def)

lemma round_half_even_of_int [simp]: "round_half_even (of_int k) = k"
  by (simp add: round_half_even_def)

lemma round_half_even_zero [simp]: "round_half_even 0 = 0"
  by (simp add: round_half_even_def)

lemma round_half_even_mono:
  assumes "y \<le> z"
  shows "round_half_even y \<le> round_half_even z"
proof (cases "\<lfloor>y\<rfloor> = \<lfloor>z\<rfloor>")
  case True
  then show ?thesis
    using assms unfolding round_half_even_def Let_def by auto
next
  case False
  then have "\<lfloor>y\<rfloor> + 1 \<le> \<lfloor>z\<rfloor>"
    using floor_mono [OF assms] by linarith
  moreover have "round_half_even y \<le> \<lfloor>y\<rfloor> + 1"
    unfolding round_half_even_def Let_def by auto
  moreover have "\<lfloor>z\<rfloor> \<le> round_half_even z"
    unfolding round_half_even_def Let_def by auto
  ultimately show ?thesis by linarith
qed

lemma round_half_even_eqI:
  "of_int k - 1 / 2 < y \<Longrightarrow> y < of_int k + 1 / 2 \<Longrightarrow> round_half_even y = k"
  unfolding round_half_even_def Let_def
  by (auto simp: not_less) linarith+

lemma floor_log2_eq:
  assumes "pow2 e \<le> x" and "x < pow2 (e + 1)"
  shows "\<lfloor>log 2 x\<rfloor> = e"
proof -
  have x: "0 < x" using assms(1) pow2_pos [of e] by linarith
  have "of_int e \<le> log 2 x"
    using assms(1) x by (simp add: pow2_powr le_log_iff)
  moreover have "log 2 x < of_int e + 1"
    using assms(2) x by (simp add: pow2_powr log_less_iff)
  ultimately show ?thesis by (simp add: floor_eq_iff)
qed

lemma floor_log2_bounds:
  assumes "0 < x"
  shows "pow2 \<lfloor>log 2 x\<rfloor> \<le> x \<and> x < pow2 (\<lfloor>log 2 x\<rfloor> + 1)"
proof -
  have "of_int \<lfloor>log 2 x\<rfloor> \<le> log 2 x" by simp
  then have a: "pow2 \<lfloor>log 2 x\<rfloor> \<le> x"
    using assms le_log_iff [of 2 x "of_int \<lfloor>log 2 x\<rfloor>"] by (simp add: pow2_powr)
  have "log 2 x < of_int (\<lfloor>log 2 x\<rfloor> + 1)" by simp
  then have b: "x < pow2 (\<lfloor>log 2 x\<rfloor> + 1)"
    using assms log_less_iff [of 2 x "of_int (\<lfloor>log 2 x\<rfloor> + 1)"] by (simp add: pow2_powr)
  from a b show ?thesis ..
qed


lemma pow2_strict_mono: "a < b \<Longrightarrow> pow2 a < pow2 b"
  by (simp add: pow2_powr)

lemma pow2_less_cancel: "pow2 a < pow2 b \<Longrightarrow> a < b"
  by (simp add: pow2_powr)

lemma round_to_mono: "0 < q \<Longrightarrow> y \<le> z \<Longrightarrow> round_to q y \<le> round_to q z"
  unfolding round_to_def
  by (intro mult_right_mono of_int_le_iff [THEN iffD2] round_half_even_mono divide_right_mono)
     simp_all

lemma round_to_multiple: "0 < q \<Longrightarrow> round_to q (of_int k * q) = of_int k * q"
  by (simp add: round_to_def)

lemma round_to_zero [simp]: "round_to q 0 = 0"
  by (simp add: round_to_def)

lemma binary64_round_to: "binary64 x = round_to (pow2 (binade x - 52)) x"
  by (simp add: binary64_def)

lemma binary64_zero [simp]: "binary64 0 = 0"
  by (simp add: binary64_def)

lemma binade_eq:
  assumes "pow2 e \<le> \<bar>x\<bar>" and "\<bar>x\<bar> < pow2 (e + 1)"
  shows "binade x = max e (- 1022)"
  using floor_log2_eq [OF assms] by (simp add: binade_def)

lemma binade_bounds:
  assumes "x \<noteq> 0"
  shows "\<bar>x\<bar> < pow2 (binade x + 1)"
    and "pow2 (binade x) \<le> \<bar>x\<bar> \<or> binade x = - 1022"
proof -
  have pos: "0 < \<bar>x\<bar>" using assms by simp
  note b = floor_log2_bounds [OF pos]
  have "\<lfloor>log 2 \<bar>x\<bar>\<rfloor> + 1 \<le> binade x + 1" by (simp add: binade_def)
  then have "pow2 (\<lfloor>log 2 \<bar>x\<bar>\<rfloor> + 1) \<le> pow2 (binade x + 1)" by (rule pow2_mono)
  with b show "\<bar>x\<bar> < pow2 (binade x + 1)" by linarith
  show "pow2 (binade x) \<le> \<bar>x\<bar> \<or> binade x = - 1022"
    using b by (auto simp: binade_def max_def)
qed

lemma binary64_eq:
  assumes "pow2 e \<le> \<bar>x\<bar>" and "\<bar>x\<bar> < pow2 (e + 1)" and "- 1022 \<le> e"
  shows "binary64 x = of_int (round_half_even (x / pow2 (e - 52))) * pow2 (e - 52)"
proof -
  have "binade x = e" using binade_eq [OF assms(1,2)] assms(3) by simp
  moreover have "0 < \<bar>x\<bar>" using assms(1) pow2_pos [of e] by linarith
  then have "x \<noteq> 0" by simp
  ultimately show ?thesis by (simp add: binary64_def round_to_def)
qed

lemma binary64_dyadic:
  assumes "\<bar>k\<bar> < 2 ^ 53" and "- 1074 \<le> e"
  shows "binary64 (of_int k * pow2 e) = of_int k * pow2 e"
proof (cases "k = 0")
  case True
  then show ?thesis by simp
next
  case False
  let ?x = "of_int k * pow2 e :: real"
  have x0: "?x \<noteq> 0" using False by simp
  have "\<bar>?x\<bar> = of_int \<bar>k\<bar> * pow2 e" by (simp add: abs_mult)
  also have "\<dots> < of_int (2 ^ 53) * pow2 e"
    using assms(1) by (intro mult_strict_right_mono) (simp_all only: of_int_less_iff pow2_pos)
  also have "\<dots> = pow2 (53 + e)" by (simp add: pow2_add pow2_53)
  finally have up: "\<bar>?x\<bar> < pow2 (53 + e)" .
  have le: "binade ?x \<le> e + 52"
  proof (rule ccontr)
    assume "\<not> binade ?x \<le> e + 52"
    then have gt: "e + 53 \<le> binade ?x" by simp
    then have "binade ?x \<noteq> - 1022" using assms(2) by simp
    then have "pow2 (binade ?x) \<le> \<bar>?x\<bar>" using binade_bounds(2) [OF x0] by blast
    moreover have "pow2 (53 + e) \<le> pow2 (binade ?x)" using gt by (intro pow2_mono) simp
    ultimately show False using up by linarith
  qed
  define Q where "Q = pow2 (binade ?x - 52)"
  define d where "d = e + 52 - binade ?x"
  have d: "0 \<le> d" using le by (simp add: d_def)
  have sum: "d + (binade ?x - 52) = e" by (simp add: d_def)
  have "pow2 e = pow2 d * Q"
    using pow2_add [of d "binade ?x - 52"] unfolding sum Q_def .
  moreover have "pow2 d = of_int (2 ^ nat d)"
    using d by (rule pow2_nonneg_int)
  ultimately have eq: "?x = of_int (k * 2 ^ nat d) * Q"
    by simp
  have "0 < Q" by (simp add: Q_def)
  then have "round_to Q (of_int (k * 2 ^ nat d) * Q) = of_int (k * 2 ^ nat d) * Q"
    by (rule round_to_multiple)
  then have "round_to Q ?x = ?x"
    by (simp only: eq)
  then show ?thesis
    unfolding Q_def by (simp only: binary64_round_to)
qed

lemma binary64_of_int: "\<bar>k\<bar> < 2 ^ 53 \<Longrightarrow> binary64 (of_int k) = of_int k"
  using binary64_dyadic [of k 0] by (simp add: pow2_def)

lemma binary64_range:
  assumes "0 < x"
  shows "0 \<le> binary64 x"
    and "binary64 x \<le> pow2 (binade x + 1)"
    and "binade x \<noteq> - 1022 \<Longrightarrow> pow2 (binade x) \<le> binary64 x"
proof -
  let ?q = "pow2 (binade x - 52)"
  have x0: "x \<noteq> 0" using assms by simp
  have q: "0 < ?q" by simp
  show "0 \<le> binary64 x"
    using round_to_mono [OF q, of 0 x] assms by (simp add: binary64_round_to)
  have hi: "pow2 (binade x + 1) = of_int (2 ^ 53) * ?q"
  proof -
    have "binade x + 1 = 53 + (binade x - 52)" by simp
    then have "pow2 (binade x + 1) = pow2 53 * ?q" by (simp only: pow2_add)
    then show ?thesis by (simp add: pow2_53)
  qed
  have "x \<le> pow2 (binade x + 1)" using binade_bounds(1) [OF x0] assms by simp
  then have "round_to ?q x \<le> round_to ?q (of_int (2 ^ 53) * ?q)"
    unfolding hi by (intro round_to_mono q)
  then show "binary64 x \<le> pow2 (binade x + 1)"
    unfolding binary64_round_to hi round_to_multiple [OF q] .
  have lo: "pow2 (binade x) = of_int (2 ^ 52) * ?q"
  proof -
    have sum: "52 + (binade x - 52) = binade x" by simp
    have "pow2 (binade x) = pow2 52 * ?q"
      using pow2_add [of 52 "binade x - 52"] unfolding sum .
    then show ?thesis by (simp add: pow2_52)
  qed
  show "pow2 (binade x) \<le> binary64 x" if "binade x \<noteq> - 1022"
  proof -
    have "pow2 (binade x) \<le> x" using binade_bounds(2) [OF x0] that assms by simp
    then have "round_to ?q (of_int (2 ^ 52) * ?q) \<le> round_to ?q x"
      unfolding lo by (intro round_to_mono q)
    then show ?thesis
      unfolding binary64_round_to lo round_to_multiple [OF q] .
  qed
qed

lemma binade_mono:
  assumes "0 < x" and "x \<le> y"
  shows "binade x \<le> binade y"
proof -
  have "log 2 x \<le> log 2 y" using assms by simp
  then have "\<lfloor>log 2 x\<rfloor> \<le> \<lfloor>log 2 y\<rfloor>" by (rule floor_mono)
  then show ?thesis using assms by (simp add: binade_def)
qed

lemma binary64_mono_pos:
  assumes "0 < x" and "x \<le> y"
  shows "binary64 x \<le> binary64 y"
proof (cases "binade x = binade y")
  case True
  then show ?thesis
    using round_to_mono [OF pow2_pos assms(2)] by (simp add: binary64_round_to)
next
  case False
  then have lt: "binade x + 1 \<le> binade y" using binade_mono [OF assms] by simp
  have y: "0 < y" using assms by simp
  have "- 1022 \<le> binade x" by (simp add: binade_def)
  then have "binade y \<noteq> - 1022" using lt by simp
  then have "pow2 (binade y) \<le> binary64 y" by (rule binary64_range(3) [OF y])
  moreover have "binary64 x \<le> pow2 (binade x + 1)" by (rule binary64_range(2) [OF assms(1)])
  moreover have "pow2 (binade x + 1) \<le> pow2 (binade y)" using lt by (rule pow2_mono)
  ultimately show ?thesis by linarith
qed

lemma round_half_even_minus: "round_half_even (- y) = - round_half_even y"
proof (cases "y = of_int \<lfloor>y\<rfloor>")
  case True
  then obtain k where k: "y = of_int k" ..
  have "round_half_even (- of_int k) = round_half_even (of_int (- k))" by simp
  also have "\<dots> = - k" by (rule round_half_even_of_int)
  finally show ?thesis by (simp add: k)
next
  case False
  have "of_int \<lfloor>y\<rfloor> \<le> y" by (rule of_int_floor_le)
  moreover have "of_int \<lfloor>y\<rfloor> \<noteq> y" using False by (rule not_sym)
  ultimately have lt: "of_int \<lfloor>y\<rfloor> < y" by (rule le_neq_trans)
  have gt: "y < of_int \<lfloor>y\<rfloor> + 1" by linarith
  have f: "\<lfloor>- y\<rfloor> = - \<lfloor>y\<rfloor> - 1"
  proof (rule floor_unique)
    have e: "(of_int (- \<lfloor>y\<rfloor> - 1) :: real) = - of_int \<lfloor>y\<rfloor> - 1" by simp
    show "of_int (- \<lfloor>y\<rfloor> - 1) \<le> - y" using gt e by linarith
    show "- y < of_int (- \<lfloor>y\<rfloor> - 1) + 1" using lt e by linarith
  qed
  consider "y - of_int \<lfloor>y\<rfloor> < 1 / 2" | "1 / 2 < y - of_int \<lfloor>y\<rfloor>" | "y - of_int \<lfloor>y\<rfloor> = 1 / 2"
    by linarith
  then show ?thesis
  proof cases
    case 1
    then show ?thesis by (simp add: round_half_even_def Let_def f)
  next
    case 2
    then show ?thesis by (simp add: round_half_even_def Let_def f)
  next
    case 3
    then have "- y - of_int (- \<lfloor>y\<rfloor> - 1) = 1 / 2" by simp
    then show ?thesis using 3 by (simp add: round_half_even_def Let_def f)
  qed
qed

lemma binade_minus [simp]: "binade (- x) = binade x"
  by (simp add: binade_def)

lemma binary64_minus: "binary64 (- x) = - binary64 x"
  by (simp add: binary64_def round_to_def round_half_even_minus)

lemma binary64_nonneg: "0 \<le> x \<Longrightarrow> 0 \<le> binary64 x"
  using binary64_range(1) [of x] by (cases "x = 0") simp_all

lemma binary64_nonpos: "x \<le> 0 \<Longrightarrow> binary64 x \<le> 0"
  using binary64_nonneg [of "- x"] by (simp add: binary64_minus)

lemma binary64_mono:
  assumes "x \<le> y"
  shows "binary64 x \<le> binary64 y"
proof -
  consider "0 < x" | "y < 0" | "x \<le> 0" "0 \<le> y" by linarith
  then show ?thesis
  proof cases
    case 1
    then show ?thesis using assms by (rule binary64_mono_pos)
  next
    case 2
    then have "binary64 (- y) \<le> binary64 (- x)"
      using assms by (intro binary64_mono_pos) simp_all
    then show ?thesis by (simp add: binary64_minus)
  next
    case 3
    then show ?thesis
      using binary64_nonpos [of x] binary64_nonneg [of y] by linarith
  qed
qed

lemma binary64_abs: "binary64 \<bar>x\<bar> = \<bar>binary64 x\<bar>"
proof (cases "0 \<le> x")
  case True
  then show ?thesis using binary64_nonneg [of x] by simp
next
  case False
  then show ?thesis using binary64_nonpos [of x] by (simp add: binary64_minus)
qed

subsection \<open>Values that need no rounding\<close>

lemma binary64_numeral [simp]:
  "numeral n < (9007199254740992 :: int) \<Longrightarrow> binary64 (numeral n) = numeral n"
  using binary64_of_int [of "numeral n"] by simp

lemma binary64_neg_numeral [simp]:
  "numeral n < (9007199254740992 :: int) \<Longrightarrow> binary64 (- numeral n) = - numeral n"
  by (simp add: binary64_minus)

lemma binary64_one [simp]: "binary64 1 = 1"
  using binary64_of_int [of 1] by simp

lemma binary64_neg_one [simp]: "binary64 (- 1) = - 1"
  by (simp add: binary64_minus)

lemma binary64_half [simp]:
  "numeral n < (9007199254740992 :: int) \<Longrightarrow> binary64 (numeral n / 2) = numeral n / 2"
  using binary64_dyadic [of "numeral n" "- 1"] by (simp add: pow2_def)

lemma binary64_one_half [simp]: "binary64 (1 / 2) = 1 / 2"
  using binary64_dyadic [of 1 "- 1"] by (simp add: pow2_def)

lemma binary64_neg_half [simp]:
  "numeral n < (9007199254740992 :: int) \<Longrightarrow> binary64 (- (numeral n / 2)) = - (numeral n / 2)"
  by (simp add: binary64_minus)

lemma sequential_sum_Nil [simp]: "sequential_sum [] = 0"
  by (simp add: sequential_sum_def)

lemma foldl_fadd_nonneg: "0 \<le> a \<Longrightarrow> \<forall>x\<in>set xs. 0 \<le> x \<Longrightarrow> 0 \<le> foldl fadd a xs"
proof (induction xs arbitrary: a)
  case Nil
  then show ?case by simp
next
  case (Cons x xs)
  have "0 \<le> fadd a x"
    unfolding fadd_def using Cons.prems by (intro binary64_nonneg) simp
  then show ?case using Cons by simp
qed

lemma sequential_sum_nonneg: "\<forall>x\<in>set xs. 0 \<le> x \<Longrightarrow> 0 \<le> sequential_sum xs"
  unfolding sequential_sum_def by (rule foldl_fadd_nonneg) simp_all

lemma foldl_fadd_zeros: "\<forall>x\<in>set xs. x = 0 \<Longrightarrow> foldl fadd 0 xs = 0"
  by (induction xs) (simp_all add: fadd_def)

lemma sequential_sum_zeros: "\<forall>x\<in>set xs. x = 0 \<Longrightarrow> sequential_sum xs = 0"
  unfolding sequential_sum_def by (rule foldl_fadd_zeros)

section \<open>Float arithmetic on examples\<close>

text \<open>
  The roundings that occur when the detectors run on \<open>[0.1, 0.6]\<close>, on
  \<open>[0.1, 0.1, 0.1]\<close> and on \<open>[5, 16]\<close>; \<open>float("0.1")\<close> is \<open>binary64 (1 / 10)\<close>. The
  sum of two numbers, or of three equal numbers, is the same in whatever order the
  additions are made, so that \<open>sequential_sum\<close> is numpy's sum on these lists.
\<close>

lemma tenth_sixth_1: "binary64 (1 / 10) = 3602879701896397 / 36028797018963968"
  using binary64_eq [of "- 4" "1 / 10"]
  by (simp add: pow2_def round_half_even_def)

lemma tenth_sixth_2: "binary64 (3 / 5) = 5404319552844595 / 9007199254740992"
  using binary64_eq [of "- 1" "3 / 5"]
  by (simp add: pow2_def round_half_even_def)

lemma tenth_sixth_3: "fadd 0 (3602879701896397 / 36028797018963968) = 3602879701896397 / 36028797018963968"
  unfolding fadd_def using binary64_eq [of "- 4" "0 + (3602879701896397 / 36028797018963968)"]
  by (simp add: pow2_def round_half_even_def)

lemma tenth_sixth_4: "fadd (3602879701896397 / 36028797018963968) (5404319552844595 / 9007199254740992) = 3152519739159347 / 4503599627370496"
  unfolding fadd_def using binary64_eq [of "- 1" "(3602879701896397 / 36028797018963968) + (5404319552844595 / 9007199254740992)"]
  by (simp add: pow2_def round_half_even_def)

lemma tenth_sixth_5: "fdiv (3152519739159347 / 4503599627370496) 2 = 3152519739159347 / 9007199254740992"
  unfolding fdiv_def using binary64_eq [of "- 2" "(3152519739159347 / 4503599627370496) / 2"]
  by (simp add: pow2_def round_half_even_def)

lemma tenth_sixth_6: "fsub (3602879701896397 / 36028797018963968) (3152519739159347 / 9007199254740992) = - (9007199254740991 / 36028797018963968)"
  unfolding fsub_def using binary64_eq [of "- 3" "(3602879701896397 / 36028797018963968) - (3152519739159347 / 9007199254740992)"]
  by (simp add: pow2_def round_half_even_def)

lemma tenth_sixth_7: "fsub (5404319552844595 / 9007199254740992) (3152519739159347 / 9007199254740992) = 1 / 4"
  unfolding fsub_def using binary64_eq [of "- 2" "(5404319552844595 / 9007199254740992) - (3152519739159347 / 9007199254740992)"]
  by (simp add: pow2_def round_half_even_def)

lemma tenth_sixth_8: "fmul (- (9007199254740991 / 36028797018963968)) (- (9007199254740991 / 36028797018963968)) = 4503599627370495 / 72057594037927936"
  unfolding fmul_def using binary64_eq [of "- 5" "(- (9007199254740991 / 36028797018963968)) * (- (9007199254740991 / 36028797018963968))"]
  by (simp add: pow2_def round_half_even_def)

lemma tenth_sixth_9: "fmul (1 / 4) (1 / 4) = 1 / 16"
  unfolding fmul_def using binary64_eq [of "- 4" "(1 / 4) * (1 / 4)"]
  by (simp add: pow2_def round_half_even_def)

lemma tenth_sixth_10: "fadd 0 (4503599627370495 / 72057594037927936) = 4503599627370495 / 72057594037927936"
  unfolding fadd_def using binary64_eq [of "- 5" "0 + (4503599627370495 / 72057594037927936)"]
  by (simp add: pow2_def round_half_even_def)

lemma tenth_sixth_11: "fadd (4503599627370495 / 72057594037927936) (1 / 16) = 9007199254740991 / 72057594037927936"
  unfolding fadd_def using binary64_eq [of "- 4" "(4503599627370495 / 72057594037927936) + (1 / 16)"]
  by (simp add: pow2_def round_half_even_def)

lemma tenth_sixth_12: "fdiv (9007199254740991 / 72057594037927936) 2 = 9007199254740991 / 144115188075855872"
  unfolding fdiv_def using binary64_eq [of "- 5" "(9007199254740991 / 72057594037927936) / 2"]
  by (simp add: pow2_def round_half_even_def)

lemma tenth_sixth_13: "fsqrt (9007199254740991 / 144115188075855872) = 9007199254740991 / 36028797018963968"
proof -
  have lo: "18014398509481981 / 72057594037927936 < sqrt (9007199254740991 / 144115188075855872)"
    by (rule real_less_rsqrt) (simp add: power2_eq_square)
  have hi: "sqrt (9007199254740991 / 144115188075855872) < 18014398509481983 / 72057594037927936"
    by (rule real_less_lsqrt) (simp_all add: power2_eq_square)
  have b1: "1 / 8 \<le> sqrt (9007199254740991 / 144115188075855872)"
    by (rule real_le_rsqrt) (simp add: power2_eq_square)
  have b2: "sqrt (9007199254740991 / 144115188075855872) < 1 / 4"
    by (rule real_less_lsqrt) (simp_all add: power2_eq_square)
  have r: "round_half_even (sqrt (9007199254740991 / 144115188075855872) / pow2 ((- 3) - 52)) = 9007199254740991"
    by (rule round_half_even_eqI) (use lo hi in \<open>simp_all add: pow2_def\<close>)
  have "binary64 (sqrt (9007199254740991 / 144115188075855872)) = of_int (round_half_even (sqrt (9007199254740991 / 144115188075855872) / pow2 ((- 3) - 52))) * pow2 ((- 3) - 52)"
    by (rule binary64_eq) (use b1 b2 in \<open>simp_all add: pow2_def\<close>)
  then show ?thesis
    unfolding fsqrt_def r by (simp add: pow2_def)
qed

lemma tenth_sixth_14: "fdiv (1 / 4) (9007199254740991 / 36028797018963968) = 4503599627370497 / 4503599627370496"
  unfolding fdiv_def using binary64_eq [of "0" "(1 / 4) / (9007199254740991 / 36028797018963968)"]
  by (simp add: pow2_def round_half_even_def)

lemma tenth_sixth_15: "fmul 1 (9007199254740991 / 36028797018963968) = 9007199254740991 / 36028797018963968"
  unfolding fmul_def using binary64_eq [of "- 3" "1 * (9007199254740991 / 36028797018963968)"]
  by (simp add: pow2_def round_half_even_def)

lemma tenth_sixth_16: "fsub (3152519739159347 / 9007199254740992) (9007199254740991 / 36028797018963968) = 3602879701896397 / 36028797018963968"
  unfolding fsub_def using binary64_eq [of "- 4" "(3152519739159347 / 9007199254740992) - (9007199254740991 / 36028797018963968)"]
  by (simp add: pow2_def round_half_even_def)

lemma tenth_sixth_17: "fadd (3152519739159347 / 9007199254740992) (9007199254740991 / 36028797018963968) = 5404319552844595 / 9007199254740992"
  unfolding fadd_def using binary64_eq [of "- 1" "(3152519739159347 / 9007199254740992) + (9007199254740991 / 36028797018963968)"]
  by (simp add: pow2_def round_half_even_def)

lemma tenths_1: "fadd (3602879701896397 / 36028797018963968) (3602879701896397 / 36028797018963968) = 3602879701896397 / 18014398509481984"
  unfolding fadd_def using binary64_eq [of "- 3" "(3602879701896397 / 36028797018963968) + (3602879701896397 / 36028797018963968)"]
  by (simp add: pow2_def round_half_even_def)

lemma tenths_2: "fadd (3602879701896397 / 18014398509481984) (3602879701896397 / 36028797018963968) = 1351079888211149 / 4503599627370496"
  unfolding fadd_def using binary64_eq [of "- 2" "(3602879701896397 / 18014398509481984) + (3602879701896397 / 36028797018963968)"]
  by (simp add: pow2_def round_half_even_def)

lemma tenths_3: "fdiv (1351079888211149 / 4503599627370496) 3 = 7205759403792795 / 72057594037927936"
  unfolding fdiv_def using binary64_eq [of "- 4" "(1351079888211149 / 4503599627370496) / 3"]
  by (simp add: pow2_def round_half_even_def)

lemma tenths_4: "fsub (3602879701896397 / 36028797018963968) (7205759403792795 / 72057594037927936) = - (1 / 72057594037927936)"
  unfolding fsub_def using binary64_eq [of "- 56" "(3602879701896397 / 36028797018963968) - (7205759403792795 / 72057594037927936)"]
  by (simp add: pow2_def round_half_even_def)

lemma tenths_5: "fmul (- (1 / 72057594037927936)) (- (1 / 72057594037927936)) = 1 / 5192296858534827628530496329220096"
  unfolding fmul_def using binary64_eq [of "- 112" "(- (1 / 72057594037927936)) * (- (1 / 72057594037927936))"]
  by (simp add: pow2_def round_half_even_def)

lemma tenths_6: "fadd 0 (1 / 5192296858534827628530496329220096) = 1 / 5192296858534827628530496329220096"
  unfolding fadd_def using binary64_eq [of "- 112" "0 + (1 / 5192296858534827628530496329220096)"]
  by (simp add: pow2_def round_half_even_def)

lemma tenths_7: "fadd (1 / 5192296858534827628530496329220096) (1 / 5192296858534827628530496329220096) = 1 / 2596148429267413814265248164610048"
  unfolding fadd_def using binary64_eq [of "- 111" "(1 / 5192296858534827628530496329220096) + (1 / 5192296858534827628530496329220096)"]
  by (simp add: pow2_def round_half_even_def)

lemma tenths_8: "fadd (1 / 2596148429267413814265248164610048) (1 / 5192296858534827628530496329220096) = 3 / 5192296858534827628530496329220096"
  unfolding fadd_def using binary64_eq [of "- 111" "(1 / 2596148429267413814265248164610048) + (1 / 5192296858534827628530496329220096)"]
  by (simp add: pow2_def round_half_even_def)

lemma tenths_9: "fdiv (3 / 5192296858534827628530496329220096) 3 = 1 / 5192296858534827628530496329220096"
  unfolding fdiv_def using binary64_eq [of "- 112" "(3 / 5192296858534827628530496329220096) / 3"]
  by (simp add: pow2_def round_half_even_def)

lemma tenths_10: "fsqrt (1 / 5192296858534827628530496329220096) = 1 / 72057594037927936"
proof -
  have lo: "9007199254740991 / 649037107316853453566312041152512 < sqrt (1 / 5192296858534827628530496329220096)"
    by (rule real_less_rsqrt) (simp add: power2_eq_square)
  have hi: "sqrt (1 / 5192296858534827628530496329220096) < 9007199254740993 / 649037107316853453566312041152512"
    by (rule real_less_lsqrt) (simp_all add: power2_eq_square)
  have b1: "1 / 72057594037927936 \<le> sqrt (1 / 5192296858534827628530496329220096)"
    by (rule real_le_rsqrt) (simp add: power2_eq_square)
  have b2: "sqrt (1 / 5192296858534827628530496329220096) < 1 / 36028797018963968"
    by (rule real_less_lsqrt) (simp_all add: power2_eq_square)
  have r: "round_half_even (sqrt (1 / 5192296858534827628530496329220096) / pow2 ((- 56) - 52)) = 4503599627370496"
    by (rule round_half_even_eqI) (use lo hi in \<open>simp_all add: pow2_def\<close>)
  have "binary64 (sqrt (1 / 5192296858534827628530496329220096)) = of_int (round_half_even (sqrt (1 / 5192296858534827628530496329220096) / pow2 ((- 56) - 52))) * pow2 ((- 56) - 52)"
    by (rule binary64_eq) (use b1 b2 in \<open>simp_all add: pow2_def\<close>)
  then show ?thesis
    unfolding fsqrt_def r by (simp add: pow2_def)
qed

lemma tenths_11: "fdiv (- (1 / 72057594037927936)) (1 / 72057594037927936) = - 1"
  unfolding fdiv_def using binary64_eq [of "0" "(- (1 / 72057594037927936)) / (1 / 72057594037927936)"]
  by (simp add: pow2_def round_half_even_def)

lemma tenths_12: "fmul (1 / 2) (1 / 72057594037927936) = 1 / 144115188075855872"
  unfolding fmul_def using binary64_eq [of "- 57" "(1 / 2) * (1 / 72057594037927936)"]
  by (simp add: pow2_def round_half_even_def)

lemma tenths_13: "fsub (7205759403792795 / 72057594037927936) (1 / 144115188075855872) = 3602879701896397 / 36028797018963968"
  unfolding fsub_def using binary64_eq [of "- 4" "(7205759403792795 / 72057594037927936) - (1 / 144115188075855872)"]
  by (simp add: pow2_def round_half_even_def)

lemma tenths_14: "fadd (7205759403792795 / 72057594037927936) (1 / 144115188075855872) = 1801439850948199 / 18014398509481984"
  unfolding fadd_def using binary64_eq [of "- 4" "(7205759403792795 / 72057594037927936) + (1 / 144115188075855872)"]
  by (simp add: pow2_def round_half_even_def)

lemma five_sixteen_1: "fsub 16 5 = 11"
  unfolding fsub_def using binary64_eq [of "3" "16 - 5"]
  by (simp add: pow2_def round_half_even_def)

lemma five_sixteen_2: "fdiv 11 5 = 2476979795053773 / 1125899906842624"
  unfolding fdiv_def using binary64_eq [of "1" "11 / 5"]
  by (simp add: pow2_def round_half_even_def)

lemma five_sixteen_3: "fmul (2476979795053773 / 1125899906842624) 100 = 7740561859543041 / 35184372088832"
  unfolding fmul_def using binary64_eq [of "7" "(2476979795053773 / 1125899906842624) * 100"]
  by (simp add: pow2_def round_half_even_def)

lemma zscore_tenth_sixth:
  "zscore_anomaly sequential_sum [binary64 (1 / 10), binary64 (6 / 10)] 1 =
     (True, 4503599627370497 / 4503599627370496, (binary64 (1 / 10), binary64 (6 / 10)))"
  by (simp add: zscore_anomaly_def np_mean_def np_std_def sequential_sum_def Let_def
      tenth_sixth_1 tenth_sixth_2 tenth_sixth_3 tenth_sixth_4 tenth_sixth_5 tenth_sixth_6
      tenth_sixth_7 tenth_sixth_8 tenth_sixth_9 tenth_sixth_10 tenth_sixth_11 tenth_sixth_12
      tenth_sixth_13 tenth_sixth_14 tenth_sixth_15 tenth_sixth_16 tenth_sixth_17)

lemma np_std_tenth_sixth:
  "np_std sequential_sum [binary64 (1 / 10), binary64 (6 / 10)]
     = 9007199254740991 / 36028797018963968"
  by (simp add: np_std_def sequential_sum_def Let_def
      tenth_sixth_1 tenth_sixth_2 tenth_sixth_3 tenth_sixth_4 tenth_sixth_5 tenth_sixth_6
      tenth_sixth_7 tenth_sixth_8 tenth_sixth_9 tenth_sixth_10 tenth_sixth_11 tenth_sixth_12
      tenth_sixth_13 tenth_sixth_14 tenth_sixth_15 tenth_sixth_16 tenth_sixth_17)

lemma zscore_tenths:
  "zscore_anomaly sequential_sum
       [binary64 (1 / 10), binary64 (1 / 10), binary64 (1 / 10)] (1 / 2) =
     (True, 1, (binary64 (1 / 10), 1801439850948199 / 18014398509481984))"
  by (simp add: zscore_anomaly_def np_mean_def np_std_def sequential_sum_def Let_def
      tenth_sixth_1 tenth_sixth_3 tenths_1 tenths_2 tenths_3 tenths_4 tenths_5 tenths_6
      tenths_7 tenths_8 tenths_9 tenths_10 tenths_11 tenths_12 tenths_13 tenths_14)

lemma np_mean_tenths:
  "np_mean sequential_sum [binary64 (1 / 10), binary64 (1 / 10), binary64 (1 / 10)]
     = 7205759403792795 / 72057594037927936"
  by (simp add: np_mean_def sequential_sum_def
      tenth_sixth_1 tenth_sixth_3 tenths_1 tenths_2 tenths_3 tenths_4 tenths_5 tenths_6
      tenths_7 tenths_8 tenths_9 tenths_10 tenths_11 tenths_12 tenths_13 tenths_14)

lemma np_std_tenths:
  "np_std sequential_sum [binary64 (1 / 10), binary64 (1 / 10), binary64 (1 / 10)]
     = 1 / 72057594037927936"
  by (simp add: np_std_def sequential_sum_def Let_def
      tenth_sixth_1 tenth_sixth_3 tenths_1 tenths_2 tenths_3 tenths_4 tenths_5 tenths_6
      tenths_7 tenths_8 tenths_9 tenths_10 tenths_11 tenths_12 tenths_13 tenths_14)

lemma roc_five_sixteen:
  "rate_of_change_anomaly [5, 16] 220 = (True, 7740561859543041 / 35184372088832)"
  by (simp add: rate_of_change_anomaly_def Let_def
      five_sixteen_1 five_sixteen_2 five_sixteen_3)

section \<open>Properties of the detectors\<close>

lemma np_mean_checked_eq: "xs \<noteq> [] \<Longrightarrow> np_mean_checked np_sum xs = Some (np_mean np_sum xs)"
  by (simp add: np_mean_checked_def checked_div_def np_mean_def)

lemma np_std_checked_eq: "xs \<noteq> [] \<Longrightarrow> np_std_checked np_sum xs = Some (np_std np_sum xs)"
  by (simp add: np_std_checked_def checked_div_def np_std_def Let_def)

text \<open>
  No division of either detector ever meets a zero divisor, whatever the input: the
  checked variants always return, and return what the plain ones compute.
\<close>

lemma zscore_anomaly_checked_eq:
  "zscore_anomaly_checked np_sum values t = Some (zscore_anomaly np_sum values t)"
proof (cases "length values < 2")
  case True
  then show ?thesis by (simp add: zscore_anomaly_checked_def zscore_anomaly_def)
next
  case False
  then have ne: "values \<noteq> []" by auto
  show ?thesis
    using False
    by (simp add: zscore_anomaly_checked_def zscore_anomaly_def Let_def
        np_mean_checked_eq [OF ne] np_std_checked_eq [OF ne] checked_div_def)
qed

lemma rate_of_change_anomaly_checked_eq:
  "rate_of_change_anomaly_checked values t = Some (rate_of_change_anomaly values t)"
  by (simp add: rate_of_change_anomaly_checked_def rate_of_change_anomaly_def Let_def
      checked_div_def)

text \<open>The computed standard deviation is not negative when the sum behaves.\<close>

lemma np_std_nonneg:
  assumes "\<And>xs. \<forall>x\<in>set xs. 0 \<le> x \<Longrightarrow> 0 \<le> np_sum xs"
  shows "0 \<le> np_std np_sum values"
proof -
  let ?m = "fdiv (np_sum values) (real (length values))"
  let ?sq = "map (\<lambda>d. fmul d d) (map (\<lambda>v. fsub v ?m) values)"
  have "\<forall>x\<in>set ?sq. 0 \<le> x"
    by (auto simp: fmul_def intro: binary64_nonneg)
  then have "0 \<le> np_sum ?sq" by (rule assms)
  then have "0 \<le> fdiv (np_sum ?sq) (real (length values))"
    unfolding fdiv_def by (intro binary64_nonneg divide_nonneg_nonneg) simp_all
  then have "0 \<le> fsqrt (fdiv (np_sum ?sq) (real (length values)))"
    unfolding fsqrt_def by (intro binary64_nonneg real_sqrt_ge_zero)
  then show ?thesis by (simp add: np_std_def Let_def)
qed

text \<open>A constant list whose computed mean is the constant has computed deviation 0.\<close>

lemma np_std_constant:
  assumes "\<forall>x\<in>set values. x = c" and "np_mean np_sum values = c"
    and "np_sum (map (\<lambda>x. 0) values) = 0"
  shows "np_std np_sum values = 0"
proof -
  have m: "fdiv (np_sum values) (real (length values)) = c"
    using assms(2) by (simp add: np_mean_def)
  have e: "map (\<lambda>d. fmul d d) (map (\<lambda>v. fsub v c) values) = map (\<lambda>x. 0) values"
    using assms(1) by (simp add: fsub_def fmul_def)
  show ?thesis
    unfolding np_std_def Let_def m e assms(3) by (simp add: fdiv_def fsqrt_def)
qed

text \<open>The population statistics of a list of two values.\<close>

lemma population_mean_pair: "population_mean [a, b] = (a + b) / 2"
  by (simp add: population_mean_def)

lemma population_std_pair: "population_std [a, b] = \<bar>b - a\<bar> / 2"
proof -
  have "((a - (a + b) / 2)\<^sup>2 + (b - (a + b) / 2)\<^sup>2) / 2 = ((b - a) / 2)\<^sup>2"
    by (simp add: power2_eq_square field_simps)
  then have "population_std [a, b] = sqrt (((b - a) / 2)\<^sup>2)"
    by (simp add: population_std_def population_mean_pair)
  then show ?thesis by simp
qed

text \<open>
  The statement of claim C3 fails in float arithmetic. In the list \<open>[0.1, 0.6]\<close> the
  last value lies exactly one population standard deviation from the population mean
  (as in every list of two different values): the score \<open>|last - \<mu>| / \<sigma>\<close> is 1. With
  the threshold 1 the claim gives the score 1 and no anomaly; the detector returns
  the score \<open>1.0000000000000002\<close> and reports an anomaly.
\<close>

theorem zscore_boundary_counterexample:
  "population_std [binary64 (1 / 10), binary64 (6 / 10)] \<noteq> 0
   \<and> \<bar>last [binary64 (1 / 10), binary64 (6 / 10)]
        - population_mean [binary64 (1 / 10), binary64 (6 / 10)]\<bar>
       = 1 * population_std [binary64 (1 / 10), binary64 (6 / 10)]
   \<and> np_std sequential_sum [binary64 (1 / 10), binary64 (6 / 10)] \<noteq> 0
   \<and> zscore_anomaly sequential_sum [binary64 (1 / 10), binary64 (6 / 10)] 1
       = (True, 4503599627370497 / 4503599627370496,
          (binary64 (1 / 10), binary64 (6 / 10)))"
  unfolding zscore_tenth_sixth np_std_tenth_sixth population_std_pair population_mean_pair
  by (simp add: tenth_sixth_1 tenth_sixth_2)

text \<open>
  Claim C3, amended. For a list of at least two values whose computed standard
  deviation \<open>np.std(values)\<close> is not zero, \<open>zscore_anomaly\<close> returns the score
  \<open>|(last - mean) / std|\<close>, the range \<open>(mean - t * std, mean + t * std)\<close> and the flag
  \<open>score > t\<close>, where \<open>mean\<close> and \<open>std\<close> are numpy's mean and standard deviation of the
  whole list (the last point included, divisor \<open>N\<close>) and every operation is the rounded
  float operation. The comparison is strict: a computed score equal to \<open>t\<close> is not an
  anomaly. With a positive deviation the score is also \<open>|last - mean| / std\<close>, rounded.
\<close>

theorem zscore_anomaly_formula:
  assumes "2 \<le> length values" and "np_std np_sum values \<noteq> 0"
  shows "zscore_anomaly np_sum values t =
           (\<bar>fdiv (fsub (last values) (np_mean np_sum values)) (np_std np_sum values)\<bar> > t,
            \<bar>fdiv (fsub (last values) (np_mean np_sum values)) (np_std np_sum values)\<bar>,
            (fsub (np_mean np_sum values) (fmul t (np_std np_sum values)),
             fadd (np_mean np_sum values) (fmul t (np_std np_sum values))))
         \<and> np_mean np_sum values = fdiv (np_sum values) (real (length values))
         \<and> np_std np_sum values =
             fsqrt (fdiv (np_sum (map (\<lambda>d. fmul d d)
                                    (map (\<lambda>v. fsub v (np_mean np_sum values)) values)))
                      (real (length values)))
         \<and> (fst (snd (zscore_anomaly np_sum values t)) = t
              \<longrightarrow> \<not> fst (zscore_anomaly np_sum values t))
         \<and> (0 < np_std np_sum values \<longrightarrow>
              fst (snd (zscore_anomaly np_sum values t))
                = fdiv \<bar>fsub (last values) (np_mean np_sum values)\<bar> (np_std np_sum values))"
proof -
  let ?m = "np_mean np_sum values" and ?s = "np_std np_sum values"
  have main: "zscore_anomaly np_sum values t =
           (\<bar>fdiv (fsub (last values) ?m) ?s\<bar> > t,
            \<bar>fdiv (fsub (last values) ?m) ?s\<bar>,
            (fsub ?m (fmul t ?s), fadd ?m (fmul t ?s)))"
    unfolding zscore_anomaly_def Let_def using assms by simp
  have mean: "?m = fdiv (np_sum values) (real (length values))"
    by (simp add: np_mean_def)
  have std: "?s = fsqrt (fdiv (np_sum (map (\<lambda>d. fmul d d) (map (\<lambda>v. fsub v ?m) values)))
                          (real (length values)))"
    by (simp add: np_std_def np_mean_def Let_def)
  have strict: "\<not> fst (zscore_anomaly np_sum values t)"
    if "fst (snd (zscore_anomaly np_sum values t)) = t"
    using that by (simp add: main)
  have score: "fst (snd (zscore_anomaly np_sum values t)) = fdiv \<bar>fsub (last values) ?m\<bar> ?s"
    if "0 < ?s"
  proof -
    have "\<bar>binary64 (fsub (last values) ?m / ?s)\<bar> = binary64 \<bar>fsub (last values) ?m / ?s\<bar>"
      by (simp only: binary64_abs)
    also have "\<dots> = binary64 (\<bar>fsub (last values) ?m\<bar> / ?s)"
      using that by (simp add: abs_divide)
    finally show ?thesis by (simp add: main fdiv_def)
  qed
  from main mean std strict score show ?thesis by blast
qed

theorem zscore_anomaly_formula_witness:
  "2 \<le> length [1, 3 :: real] \<and> np_std sequential_sum [1, 3] \<noteq> 0
   \<and> np_mean sequential_sum [1, 3] = 2 \<and> np_std sequential_sum [1, 3] = 1
   \<and> zscore_anomaly sequential_sum [1, 3] 1 = (False, 1, (1, 3))
   \<and> zscore_anomaly sequential_sum [1, 3] (1 / 2) = (True, 1, (3 / 2, 5 / 2))"
proof -
  have l: "2 \<le> length [1, 3 :: real]" by simp
  have m: "np_mean sequential_sum [1, 3] = 2"
    by (simp add: np_mean_def sequential_sum_def fadd_def fdiv_def)
  have s: "np_std sequential_sum [1, 3] = 1"
    by (simp add: np_std_def sequential_sum_def Let_def fadd_def fdiv_def fsub_def fmul_def
        fsqrt_def)
  have n: "np_std sequential_sum [1, 3] \<noteq> 0" by (simp add: s)
  show ?thesis
    using zscore_anomaly_formula [OF l n, of 1] zscore_anomaly_formula [OF l n, of "1 / 2"]
    by (simp add: m s fadd_def fdiv_def fsub_def fmul_def)
qed

text \<open>
  The statement of claim C4 fails in float arithmetic. From 5 to 16 the change is
  \<open>(16 - 5) / 5 * 100 = 220\<close> percent, which does not exceed the threshold 220; the
  detector computes \<open>220.00000000000003\<close> and reports an anomaly.
\<close>

theorem rate_of_change_boundary_counterexample:
  "recent_window [5, 16] = [5, 16]
   \<and> (last (recent_window [5, 16]) - hd (recent_window [5, 16]))
         / hd (recent_window [5, 16]) * 100 = 220
   \<and> \<not> \<bar>220 :: real\<bar> > 220
   \<and> rate_of_change_anomaly [5, 16] 220 = (True, 7740561859543041 / 35184372088832)"
  by (simp add: roc_five_sixteen recent_window_def)

text \<open>
  Claim C4, amended. For a list of at least two values, \<open>rate_of_change_anomaly\<close> works
  on the recent sub-window (the last 10 points, or the whole list when it is shorter):
  a sub-window starting with 0 is not an anomaly (change 0); otherwise the change is
  \<open>(recent_last - recent_first) / recent_first * 100\<close>, every operation being the
  rounded float operation, and the flag is \<open>|change_percent| > t\<close> for this computed
  change, strictly, for a rise as for a drop.
\<close>

theorem rate_of_change_anomaly_window:
  assumes "2 \<le> length values"
  shows "take (length values - 10) values @ recent_window values = values
         \<and> length (recent_window values) = min 10 (length values)
         \<and> rate_of_change_anomaly values t =
             (if hd (recent_window values) = 0 then (False, 0)
              else
                let change_percent =
                      fmul (fdiv (fsub (last (recent_window values)) (hd (recent_window values)))
                              (hd (recent_window values))) 100
                in (\<bar>change_percent\<bar> > t, change_percent))
         \<and> (fst (rate_of_change_anomaly values t) \<longleftrightarrow>
              hd (recent_window values) \<noteq> 0
              \<and> (fmul (fdiv (fsub (last (recent_window values)) (hd (recent_window values)))
                          (hd (recent_window values))) 100 > t
                 \<or> fmul (fdiv (fsub (last (recent_window values)) (hd (recent_window values)))
                          (hd (recent_window values))) 100 < - t))"
proof -
  have rec: "(if length values \<ge> 10 then drop (length values - 10) values else values)
             = recent_window values"
    by (simp add: recent_window_def)
  have ne: "recent_window values \<noteq> []"
    using assms by (auto simp: recent_window_def)
  have hd0: "recent_window values ! 0 = hd (recent_window values)"
    using ne by (simp add: hd_conv_nth)
  have len: "length (recent_window values) = min 10 (length values)"
    by (simp add: recent_window_def)
  have app: "take (length values - 10) values @ recent_window values = values"
    by (simp add: recent_window_def)
  have main: "rate_of_change_anomaly values t =
             (if hd (recent_window values) = 0 then (False, 0)
              else
                let change_percent =
                      fmul (fdiv (fsub (last (recent_window values)) (hd (recent_window values)))
                              (hd (recent_window values))) 100
                in (\<bar>change_percent\<bar> > t, change_percent))"
    unfolding rate_of_change_anomaly_def rec Let_def hd0 using assms by simp
  have sign: "fst (rate_of_change_anomaly values t) \<longleftrightarrow>
              hd (recent_window values) \<noteq> 0
              \<and> (fmul (fdiv (fsub (last (recent_window values)) (hd (recent_window values)))
                          (hd (recent_window values))) 100 > t
                 \<or> fmul (fdiv (fsub (last (recent_window values)) (hd (recent_window values)))
                          (hd (recent_window values))) 100 < - t)"
    unfolding main Let_def by (auto simp: abs_if)
  from app len main sign show ?thesis by blast
qed

theorem rate_of_change_anomaly_window_witness:
  "2 \<le> length [0, 5, 4, 4, 4, 4, 4, 4, 4, 4, 4, 14 :: real]
   \<and> recent_window [0, 5, 4, 4, 4, 4, 4, 4, 4, 4, 4, 14] = [4, 4, 4, 4, 4, 4, 4, 4, 4, 14]
   \<and> rate_of_change_anomaly [0, 5, 4, 4, 4, 4, 4, 4, 4, 4, 4, 14] 100 = (True, 250)
   \<and> rate_of_change_anomaly [0, 5, 4, 4, 4, 4, 4, 4, 4, 4, 4, 14] 250 = (False, 250)"
proof -
  have l: "2 \<le> length [0, 5, 4, 4, 4, 4, 4, 4, 4, 4, 4, 14 :: real]" by simp
  have w: "recent_window [0, 5, 4, 4, 4, 4, 4, 4, 4, 4, 4, 14] = [4, 4, 4, 4, 4, 4, 4, 4, 4, 14]"
    by (simp add: recent_window_def)
  show ?thesis
    using rate_of_change_anomaly_window [OF l, of 100]
      rate_of_change_anomaly_window [OF l, of 250]
    by (simp add: w Let_def fsub_def fdiv_def fmul_def)
qed

text \<open>
  The statement of claim C5 fails in float arithmetic. The computed mean of the constant
  list \<open>[0.1, 0.1, 0.1]\<close> is \<open>0.10000000000000002\<close>, its computed standard deviation is
  not 0, and the detector takes the general branch: with the threshold \<open>0.5\<close> it
  reports an anomaly with the range \<open>(0.1, 0.10000000000000003)\<close>.
\<close>

theorem constant_series_counterexample:
  "2 \<le> length [binary64 (1 / 10), binary64 (1 / 10), binary64 (1 / 10)]
   \<and> set [binary64 (1 / 10), binary64 (1 / 10), binary64 (1 / 10)] = {binary64 (1 / 10)}
   \<and> np_mean sequential_sum [binary64 (1 / 10), binary64 (1 / 10), binary64 (1 / 10)]
       = binary64 (1 / 10) + 1 / 72057594037927936
   \<and> np_std sequential_sum [binary64 (1 / 10), binary64 (1 / 10), binary64 (1 / 10)]
       = 1 / 72057594037927936
   \<and> zscore_anomaly sequential_sum
         [binary64 (1 / 10), binary64 (1 / 10), binary64 (1 / 10)] (1 / 2)
       = (True, 1, (binary64 (1 / 10), binary64 (1 / 10) + 2 / 72057594037927936))"
  unfolding zscore_tenths np_mean_tenths np_std_tenths
  by (simp add: tenth_sixth_1)

text \<open>
  Claim C5, amended. On a list of fewer than two values \<open>zscore_anomaly\<close> returns
  \<open>(False, 0, (0, 0))\<close> and \<open>rate_of_change_anomaly\<close> returns \<open>(False, 0)\<close>. On a list of at
  least two values whose computed standard deviation is 0, \<open>zscore_anomaly\<close> returns no
  anomaly, the score 0 and the range collapsed to the computed mean; this is the case
  of a constant list of values \<open>c\<close> whose computed mean is \<open>c\<close> itself (numpy's sum of
  zeros being 0), and then the range is \<open>(c, c)\<close>. The results are functions of the
  input, and no division of either detector meets a zero divisor, on any input (the
  checked variants return).
\<close>

theorem detectors_degenerate_inputs:
  "(length values < 2 \<longrightarrow>
      zscore_anomaly np_sum values t = (False, 0, (0, 0))
      \<and> rate_of_change_anomaly values t' = (False, 0))
   \<and> (2 \<le> length values \<and> np_std np_sum values = 0 \<longrightarrow>
      zscore_anomaly np_sum values t
        = (False, 0, (np_mean np_sum values, np_mean np_sum values)))
   \<and> (2 \<le> length values \<and> (\<forall>x\<in>set values. x = c) \<and> np_mean np_sum values = c
        \<and> np_sum (map (\<lambda>x. 0) values) = 0 \<longrightarrow>
      np_std np_sum values = 0
      \<and> zscore_anomaly np_sum values t = (False, 0, (c, c)))
   \<and> zscore_anomaly_checked np_sum values t = Some (zscore_anomaly np_sum values t)
   \<and> rate_of_change_anomaly_checked values t' = Some (rate_of_change_anomaly values t')"
proof (intro conjI impI)
  assume short: "length values < 2"
  show "zscore_anomaly np_sum values t = (False, 0, (0, 0))"
    using short by (simp add: zscore_anomaly_def)
  show "rate_of_change_anomaly values t' = (False, 0)"
    using short by (simp add: rate_of_change_anomaly_def)
next
  assume "2 \<le> length values \<and> np_std np_sum values = 0"
  then show "zscore_anomaly np_sum values t
        = (False, 0, (np_mean np_sum values, np_mean np_sum values))"
    by (simp add: zscore_anomaly_def Let_def)
next
  assume const: "2 \<le> length values \<and> (\<forall>x\<in>set values. x = c) \<and> np_mean np_sum values = c
        \<and> np_sum (map (\<lambda>x. 0) values) = 0"
  then show s: "np_std np_sum values = 0"
    by (intro np_std_constant [of _ c]) simp_all
  show "zscore_anomaly np_sum values t = (False, 0, (c, c))"
    using const s by (simp add: zscore_anomaly_def)
next
  show "zscore_anomaly_checked np_sum values t = Some (zscore_anomaly np_sum values t)"
    by (rule zscore_anomaly_checked_eq)
  show "rate_of_change_anomaly_checked values t' = Some (rate_of_change_anomaly values t')"
    by (rule rate_of_change_anomaly_checked_eq)
qed

theorem detectors_degenerate_inputs_witness:
  "length [42 :: real] < 2
   \<and> zscore_anomaly sequential_sum [42] 3 = (False, 0, (0, 0))
   \<and> rate_of_change_anomaly [42] 100 = (False, 0)
   \<and> 2 \<le> length [7, 7, 7 :: real] \<and> set [7, 7, 7 :: real] = {7}
   \<and> np_mean sequential_sum [7, 7, 7] = 7
   \<and> sequential_sum (map (\<lambda>x. 0) [7, 7, 7 :: real]) = 0
   \<and> np_std sequential_sum [7, 7, 7] = 0
   \<and> zscore_anomaly sequential_sum [7, 7, 7] 3 = (False, 0, (7, 7))
   \<and> zscore_anomaly_checked sequential_sum [7, 7, 7] 3 = Some (False, 0, (7, 7))"
proof -
  have m: "np_mean sequential_sum [7, 7, 7] = 7"
    by (simp add: np_mean_def sequential_sum_def fadd_def fdiv_def)
  have z: "sequential_sum [0, 0, 0] = 0"
    by (simp add: sequential_sum_def fadd_def)
  show ?thesis
    using detectors_degenerate_inputs [of "[42]" sequential_sum 3 100 7]
      detectors_degenerate_inputs [of "[7, 7, 7]" sequential_sum 3 100 7]
    by (simp add: m z)
qed

text \<open>
  The statement of claim C10 fails in float arithmetic. On \<open>[0.1, 0.6]\<close> with the
  threshold 1 the detector reports an anomaly and returns the range \<open>(0.1, 0.6)\<close>: the
  last value 0.6 is the upper end of the range, not outside it.
\<close>

theorem zscore_flag_range_counterexample:
  "2 \<le> length [binary64 (1 / 10), binary64 (6 / 10)]
   \<and> np_std sequential_sum [binary64 (1 / 10), binary64 (6 / 10)] \<noteq> 0
   \<and> (0 :: real) \<le> 1
   \<and> (case zscore_anomaly sequential_sum [binary64 (1 / 10), binary64 (6 / 10)] 1 of
         (is_anomaly, zscore, (lower, upper)) \<Rightarrow>
           is_anomaly
           \<and> lower = binary64 (1 / 10) \<and> upper = binary64 (6 / 10)
           \<and> \<not> (last [binary64 (1 / 10), binary64 (6 / 10)] < lower
                \<or> upper < last [binary64 (1 / 10), binary64 (6 / 10)]))"
  unfolding zscore_tenth_sixth np_std_tenth_sixth
  by (simp add: tenth_sixth_1 tenth_sixth_2)

text \<open>
  Claim C10, amended. For a list of at least two values with a computed standard
  deviation other than 0 and a threshold \<open>t \<ge> 0\<close>, the flag returned by \<open>zscore_anomaly\<close>
  is the score test \<open>score > t\<close> on the returned score; the returned range satisfies
  \<open>lower \<le> upper\<close> and the score is not negative (numpy's sum of numbers that are not
  negative being not negative). The range test on the returned range need not agree
  with the flag when the last value is at an end of the range.
\<close>

theorem zscore_score_and_range:
  assumes "2 \<le> length values" and "np_std np_sum values \<noteq> 0" and "0 \<le> t"
    and "\<And>xs. \<forall>x\<in>set xs. 0 \<le> x \<Longrightarrow> 0 \<le> np_sum xs"
  shows "(case zscore_anomaly np_sum values t of
            (is_anomaly, zscore, (lower, upper)) \<Rightarrow>
              (is_anomaly \<longleftrightarrow> zscore > t) \<and> lower \<le> upper \<and> 0 \<le> zscore)"
proof -
  let ?m = "np_mean np_sum values" and ?s = "np_std np_sum values"
  have "0 \<le> ?s" using assms(4) by (rule np_std_nonneg)
  then have "0 \<le> fmul t ?s"
    unfolding fmul_def using assms(3) by (intro binary64_nonneg mult_nonneg_nonneg)
  then have "fsub ?m (fmul t ?s) \<le> fadd ?m (fmul t ?s)"
    unfolding fsub_def fadd_def by (intro binary64_mono) simp
  then show ?thesis
    using assms(1,2) by (simp add: zscore_anomaly_def Let_def)
qed

theorem zscore_score_and_range_witness:
  "2 \<le> length [1, 3 :: real] \<and> np_std sequential_sum [1, 3] \<noteq> 0 \<and> (0 :: real) \<le> 1 / 2
   \<and> zscore_anomaly sequential_sum [1, 3] (1 / 2) = (True, 1, (3 / 2, 5 / 2))
   \<and> (1 :: real) > 1 / 2 \<and> (3 / 2 :: real) \<le> 5 / 2"
proof -
  have l: "2 \<le> length [1, 3 :: real]" by simp
  have s: "np_std sequential_sum [1, 3] = 1"
    by (simp add: np_std_def sequential_sum_def Let_def fadd_def fdiv_def fsub_def fmul_def
        fsqrt_def)
  have n: "np_std sequential_sum [1, 3] \<noteq> 0" by (simp add: s)
  have h: "(0 :: real) \<le> 1 / 2" by simp
  have z: "zscore_anomaly sequential_sum [1, 3] (1 / 2) = (True, 1, (3 / 2, 5 / 2))"
    by (simp add: zscore_anomaly_def np_mean_def s sequential_sum_def fadd_def fdiv_def
        fsub_def fmul_def)
  show ?thesis
    using zscore_score_and_range [OF l n h sequential_sum_nonneg] by (simp add: z s)
qed

section \<open>Properties of the monitor\<close>

subsection \<open>Calls and what they leave untouched\<close>

lemma and_then_Return [simp]: "and_then (Return a) f s = f a s"
  by (simp add: and_then_def)

lemma and_then_Raise [simp]: "and_then (Raise e) f s = Raise e s"
  by (simp add: and_then_def)

lemma notifications_logger [simp]:
  "notifications (trace (logger level msg s)) = notifications (trace s)"
  by (simp add: logger_def)

lemma tick_logger [simp]: "tick (logger level msg s) = tick s"
  by (simp add: logger_def)

lemma dict_logger [simp]: "alert_cooldown_dict (logger level msg s) = alert_cooldown_dict s"
  by (simp add: logger_def)

lemma untouched_refl [simp]: "untouched s s"
  by (simp add: untouched_def)

lemma untouched_trans: "untouched s s1 \<Longrightarrow> untouched s1 s2 \<Longrightarrow> untouched s s2"
  by (simp add: untouched_def)

lemma untouched_logger [simp]: "untouched s (logger level msg s') = untouched s s'"
  by (simp add: untouched_def)

lemma query_range_untouched: "untouched s (result_state (query_range w q h s))"
  by (simp add: query_range_def Let_def untouched_def split: prom_reply.splits)

lemma get_metric_values_untouched: "untouched s (result_state (get_metric_values w m q s))"
proof -
  have "untouched s (result_state (query_range w q (history_hours m) s))"
    by (rule query_range_untouched)
  then show ?thesis
    unfolding get_metric_values_def and_then_def
    by (cases "query_range w q (history_hours m) s")
      (auto split: list.splits prom_series.splits option.splits)
qed

lemma generate_context_untouched:
  "untouched s (result_state (generate_context w metric current expected change s))"
  by (simp add: generate_context_def Let_def untouched_def
      split: insight_reply.splits insight_payload.splits)

lemma gated_untouched: "untouched s (result_state r) \<Longrightarrow> gated w m k s r"
  by (simp add: gated_def)

lemma after_query:
  assumes "\<And>values s1. untouched s s1 \<Longrightarrow> gated w m k s (f values s1)"
  shows "gated w m k s (and_then (get_metric_values w m q) f s)"
proof (cases "get_metric_values w m q s")
  case (Return vs s1)
  then have "untouched s s1"
    using get_metric_values_untouched [of s w m q] by simp
  then show ?thesis
    using assms Return by (simp add: and_then_def)
next
  case (Raise e s1)
  then have "untouched s s1"
    using get_metric_values_untouched [of s w m q] by simp
  then show ?thesis
    using Raise by (simp add: and_then_def gated_untouched)
qed

lemma send_then_record:
  "and_then (send_alert w alert insight) (\<lambda>_. record_alert w k) s =
     (if discord_api w (tick s) = WebhookInterrupt
      then Raise KeyboardInterrupt
             (s\<lparr>tick := Suc (tick s),
                trace := Sent \<lparr>sent_alert = alert, sent_insight = insight, sent_at = tick s,
                               sent_reply = WebhookInterrupt\<rparr> # trace s\<rparr>)
      else Return ()
             (s\<lparr>tick := Suc (Suc (tick s)),
                trace :=
                  Logged (if discord_api w (tick s) = WebhookException
                             \<or> (\<exists>c. discord_api w (tick s) = WebhookResponse c \<and> 400 \<le> c \<and> c < 600)
                          then ERROR else INFO)
                         (if discord_api w (tick s) = WebhookException
                             \<or> (\<exists>c. discord_api w (tick s) = WebhookResponse c \<and> 400 \<le> c \<and> c < 600)
                          then ''Failed to send Discord alert'' else ''Alert sent to Discord'')
                  # Sent \<lparr>sent_alert = alert, sent_insight = insight, sent_at = tick s,
                          sent_reply = discord_api w (tick s)\<rparr> # trace s,
                alert_cooldown_dict := (alert_cooldown_dict s)(k \<mapsto> clock w (Suc (tick s)))\<rparr>))"
  by (auto simp: send_alert_def record_alert_def time_time_def and_then_def logger_def Let_def
      split: webhook_reply.splits)

lemma alert_path_gated:
  assumes frame: "untouched s s1"
    and gate: "clock w j - (case alert_cooldown_dict s k of None \<Rightarrow> 0 | Some t \<Rightarrow> t)
                 > alert_cooldown m"
    and j: "tick s \<le> j" "j < tick s1"
    and key: "\<And>now. alert_key (mk now) = k"
    and ins: "\<And>s'. untouched s' (result_state (ins s'))"
  shows "gated w m k s
           (and_then (time_time w) (\<lambda>now.
              and_then ins (\<lambda>insight.
                and_then (send_alert w (mk now) insight) (\<lambda>_. record_alert w k))) s1)"
proof -
  let ?s2 = "s1\<lparr>tick := Suc (tick s1)\<rparr>"
  let ?now = "clock w (tick s1)"
  have s2: "untouched s ?s2"
    using frame by (simp add: untouched_def)
  show ?thesis
  proof (cases "ins ?s2")
    case (Raise e s3)
    then have "untouched ?s2 s3" using ins [of ?s2] by simp
    with s2 have "untouched s s3" by (rule untouched_trans)
    then show ?thesis
      using Raise by (simp add: time_time_def and_then_def gated_untouched)
  next
    case (Return insight s3)
    then have "untouched ?s2 s3" using ins [of ?s2] by simp
    with s2 have s3: "untouched s s3" by (rule untouched_trans)
    have t3: "tick s1 < tick s3"
      using \<open>untouched ?s2 s3\<close> by (simp add: untouched_def)
    have eq: "and_then (time_time w) (\<lambda>now.
              and_then ins (\<lambda>insight.
                and_then (send_alert w (mk now) insight) (\<lambda>_. record_alert w k))) s1
          = and_then (send_alert w (mk ?now) insight) (\<lambda>_. record_alert w k) s3"
      using Return by (simp add: time_time_def and_then_def)
    show ?thesis
      unfolding eq send_then_record gated_def
      apply (rule disjI2)
      apply (rule exI [of _ "\<lparr>sent_alert = mk ?now, sent_insight = insight, sent_at = tick s3,
                               sent_reply = discord_api w (tick s3)\<rparr>"])
      apply (rule exI [of _ j])
      using s3 t3 gate j key [of ?now]
      apply (simp add: untouched_def)
      done
  qed
qed


subsection \<open>Every evaluator is one gated notification at most\<close>

lemma gate_then_alert:
  assumes frame: "untouched s s1"
    and key: "\<And>now. alert_key (mk now) = k"
    and ins: "\<And>s'. untouched s' (result_state (ins s'))"
  shows "gated w m k s
           (and_then (detected_and_can_alert w m flag k) (\<lambda>go.
              if \<not> go then Return ()
              else and_then (time_time w) (\<lambda>now.
                     and_then ins (\<lambda>insight.
                       and_then (send_alert w (mk now) insight) (\<lambda>_. record_alert w k)))) s1)"
proof (cases flag)
  case False
  then show ?thesis
    using frame by (simp add: detected_and_can_alert_def gated_untouched)
next
  case True
  let ?s2 = "s1\<lparr>tick := Suc (tick s1)\<rparr>"
  let ?go = "clock w (tick s1) - (case alert_cooldown_dict s k of None \<Rightarrow> 0 | Some t \<Rightarrow> t)
               > alert_cooldown m"
  have dict: "alert_cooldown_dict s1 = alert_cooldown_dict s"
    using frame by (simp add: untouched_def)
  have can: "detected_and_can_alert w m flag k s1 = Return ?go ?s2"
    using True
    by (simp add: detected_and_can_alert_def can_alert_def time_time_def and_then_def dict)
  have s2: "untouched s ?s2"
    using frame by (simp add: untouched_def)
  show ?thesis
  proof (cases ?go)
    case False
    then show ?thesis
      using s2 by (simp add: and_then_def can gated_untouched)
  next
    case go: True
    have ticks: "tick s \<le> tick s1" "tick s1 < tick ?s2"
      using frame by (simp_all add: untouched_def)
    have "gated w m k s
           (and_then (time_time w) (\<lambda>now.
              and_then ins (\<lambda>insight.
                and_then (send_alert w (mk now) insight) (\<lambda>_. record_alert w k))) ?s2)"
      using s2 go ticks key ins by (rule alert_path_gated)
    then show ?thesis
      using go by (simp add: and_then_def can)
  qed
qed

lemma and_then_Return_fun: "and_then (Return a) f = f a"
  by (rule ext) (simp add: and_then_def)

lemma gate_then_alert_plain:
  assumes frame: "untouched s s1"
    and key: "\<And>now. alert_key (mk now) = k"
  shows "gated w m k s
           (and_then (detected_and_can_alert w m flag k) (\<lambda>go.
              if \<not> go then Return ()
              else and_then (time_time w) (\<lambda>now.
                     and_then (send_alert w (mk now) []) (\<lambda>_. record_alert w k))) s1)"
proof -
  have ins: "\<And>s'. untouched s' (result_state (Return ([] :: pystr) s'))"
    by simp
  show ?thesis
    using gate_then_alert [where ins = "Return []" and mk = mk, OF frame key ins, of w m flag]
    by (simp add: and_then_Return_fun cong: if_cong)
qed

lemma gated_storage_space: "gated w m ''storage_space'' s (check_storage_space w m s)"
  unfolding check_storage_space_def Let_def
  apply (rule after_query)
  subgoal for vs s1
    apply (cases "vs = []")
     apply (simp add: gated_untouched)
    apply (cases "zscore_anomaly (numpy_sum w) vs (zscore_threshold m)" rule: prod_cases3)
    apply (simp split del: if_split)
    apply (rule gate_then_alert)
      apply assumption
     apply (simp add: alert_key_def)
    apply (simp add: generate_context_untouched)
    done
  done

lemma gated_request_rate: "gated w m ''request_rate'' s (check_request_rate w m s)"
  unfolding check_request_rate_def Let_def
  apply (rule after_query)
  subgoal for vs s1
    apply (cases "vs = []")
     apply (simp add: gated_untouched)
    apply (cases "rate_of_change_anomaly vs (roc_threshold m)")
    apply (cases "zscore_anomaly (numpy_sum w) vs 2" rule: prod_cases3)
    apply (simp split del: if_split)
    apply (rule gate_then_alert)
      apply assumption
     apply (simp add: alert_key_def)
    apply (simp add: generate_context_untouched)
    done
  done

lemma gated_error_rate: "gated w m ''error_rate'' s (check_error_rate w m s)"
  unfolding check_error_rate_def Let_def
  apply (rule after_query)
  subgoal for vs s1
    apply (cases "vs = []")
     apply (simp add: gated_untouched)
    apply (cases "zscore_anomaly (numpy_sum w) vs 2" rule: prod_cases3)
    apply (simp split del: if_split)
    apply (rule gate_then_alert)
      apply assumption
     apply (simp add: alert_key_def)
    apply (simp add: generate_context_untouched)
    done
  done

lemma network_alert_key_send: "network_alert_key ''Network Send'' = ''network_send''"
  by (simp add: network_alert_key_def lower_char_def)

lemma network_alert_key_receive: "network_alert_key ''Network Receive'' = ''network_receive''"
  by (simp add: network_alert_key_def lower_char_def)

lemma gated_network_send:
  "untouched s s1 \<Longrightarrow>
   gated w m ''network_send'' s (check_network_signal w m (''Network Send'', vs) s1)"
  unfolding check_network_signal_def Let_def prod.case network_alert_key_send
  apply (cases "zscore_anomaly (numpy_sum w) vs (zscore_threshold m)" rule: prod_cases3)
  apply (simp split del: if_split)
  apply (rule gate_then_alert_plain)
   apply assumption
  apply (simp add: alert_key_def)
  done

lemma gated_network_receive:
  "untouched s s1 \<Longrightarrow>
   gated w m ''network_receive'' s (check_network_signal w m (''Network Receive'', vs) s1)"
  unfolding check_network_signal_def Let_def prod.case network_alert_key_receive
  apply (cases "zscore_anomaly (numpy_sum w) vs (zscore_threshold m)" rule: prod_cases3)
  apply (simp split del: if_split)
  apply (rule gate_then_alert_plain)
   apply assumption
  apply (simp add: alert_key_def)
  done


subsection \<open>The cooldown invariant\<close>

lemma post_Return [simp]: "post Q E (Return a s) = Q a s"
  by (simp add: post_def)

lemma post_Raise [simp]: "post Q E (Raise e s) = E e s"
  by (simp add: post_def)

lemma post_and_then:
  assumes "post Q E (f s)" and "\<And>a s'. Q a s' \<Longrightarrow> post Q' E (g a s')"
  shows "post Q' E (and_then f g s)"
  using assms by (cases "f s") (simp_all add: and_then_def)

lemma cooldown_inv_iff:
  "cooldown_inv w m s \<longleftrightarrow>
     (\<forall>n \<in> set (notifications (trace s)).
        sent_at n < tick s
        \<and> (\<exists>t. alert_cooldown_dict s (alert_key (sent_alert n)) = Some t
                 \<and> clock w (sent_at n) \<le> t))
     \<and> spaced w (alert_cooldown m) (notifications (trace s))"
  unfolding cooldown_inv_def by (auto split: option.splits)

lemma cooldown_inv_untouched:
  "cooldown_inv w m s \<Longrightarrow> untouched s s' \<Longrightarrow> cooldown_inv w m s'"
  by (fastforce simp: cooldown_inv_iff untouched_def)

lemma cooldown_inv_spaced:
  "cooldown_inv w m s \<Longrightarrow> spaced w (alert_cooldown m) (notifications (trace s))"
  by (simp add: cooldown_inv_iff)

lemma gated_preserves:
  assumes mono: "mono (clock w)"
    and inv: "cooldown_inv w m s"
    and g: "gated w m k s r"
  shows "post (\<lambda>_ s'. cooldown_inv w m s')
              (\<lambda>_ s'. spaced w (alert_cooldown m) (notifications (trace s'))) r"
proof (cases "untouched s (result_state r)")
  case True
  with inv have "cooldown_inv w m (result_state r)"
    by (rule cooldown_inv_untouched)
  then show ?thesis
    by (cases r) (simp_all add: cooldown_inv_spaced)
next
  case False
  with g obtain n j where j: "tick s \<le> j" "j < sent_at n"
    and at: "sent_at n < tick (result_state r)"
    and key: "alert_key (sent_alert n) = k"
    and gate: "clock w j - (case alert_cooldown_dict s k of None \<Rightarrow> 0 | Some t \<Rightarrow> t)
                 > alert_cooldown m"
    and ns: "notifications (trace (result_state r)) = n # notifications (trace s)"
    and res: "case r of
                Raise e s' \<Rightarrow> sent_reply n = WebhookInterrupt
                   \<and> alert_cooldown_dict s' = alert_cooldown_dict s
              | Return u s' \<Rightarrow> sent_reply n \<noteq> WebhookInterrupt \<and> Suc (sent_at n) < tick s'
                   \<and> alert_cooldown_dict s' =
                       (alert_cooldown_dict s)(k \<mapsto> clock w (Suc (sent_at n)))"
    unfolding gated_def by blast
  have old: "sent_at n' < tick s
             \<and> (\<exists>t. alert_cooldown_dict s (alert_key (sent_alert n')) = Some t
                     \<and> clock w (sent_at n') \<le> t)"
    if "n' \<in> set (notifications (trace s))" for n'
    using inv that by (simp add: cooldown_inv_iff)
  have later: "clock w j \<le> clock w (sent_at n)"
    using mono j by (simp add: monoD)
  have gap: "clock w (sent_at n) - clock w (sent_at n') > alert_cooldown m"
    if "n' \<in> set (notifications (trace s))" and "alert_key (sent_alert n') = k" for n'
  proof -
    from old [OF that(1)] that(2) obtain t where
      "alert_cooldown_dict s k = Some t" and "clock w (sent_at n') \<le> t"
      by auto
    with gate later show ?thesis by simp
  qed
  have sp: "spaced w (alert_cooldown m) (notifications (trace (result_state r)))"
    using gap key inv by (simp add: ns cooldown_inv_iff)
  show ?thesis
  proof (cases r)
    case (Raise e s')
    then show ?thesis using sp by simp
  next
    case (Return u s')
    with res have rec: "Suc (sent_at n) < tick s'"
      "alert_cooldown_dict s' = (alert_cooldown_dict s)(k \<mapsto> clock w (Suc (sent_at n)))"
      by simp_all
    have stamp: "clock w (sent_at n') \<le> clock w (Suc (sent_at n))"
      if "n' \<in> set (notifications (trace s))" for n'
    proof -
      from old [OF that] j have "sent_at n' \<le> Suc (sent_at n)" by simp
      with mono show ?thesis by (simp add: monoD)
    qed
    have self: "clock w (sent_at n) \<le> clock w (Suc (sent_at n))"
      using mono by (simp add: monoD)
    have "cooldown_inv w m s'"
      unfolding cooldown_inv_iff
    proof (intro conjI ballI)
      fix n' assume n': "n' \<in> set (notifications (trace s'))"
      then consider "n' = n" | "n' \<in> set (notifications (trace s))"
        using ns Return by auto
      then show "sent_at n' < tick s'"
      proof cases
        case 1 then show ?thesis using rec(1) by simp
      next
        case 2 then show ?thesis using old [OF 2] j rec(1) by simp
      qed
      from n' consider "n' = n" | "n' \<in> set (notifications (trace s))"
        using ns Return by auto
      then show "\<exists>t. alert_cooldown_dict s' (alert_key (sent_alert n')) = Some t
                    \<and> clock w (sent_at n') \<le> t"
      proof cases
        case 1 then show ?thesis using rec(2) key self by simp
      next
        case 2 then show ?thesis using old [OF 2] stamp [OF 2] rec(2) by auto
      qed
    next
      show "spaced w (alert_cooldown m) (notifications (trace s'))"
        using sp Return by simp
    qed
    then show ?thesis using Return by simp
  qed
qed


subsection \<open>The invariant along a run\<close>

lemma get_metric_values_preserves:
  assumes "cooldown_inv w m s"
  shows "post (\<lambda>_. cooldown_inv w m)
              (\<lambda>_ s'. spaced w (alert_cooldown m) (notifications (trace s')))
              (get_metric_values w m q s)"
proof -
  have "cooldown_inv w m (result_state (get_metric_values w m q s))"
    using assms get_metric_values_untouched by (rule cooldown_inv_untouched)
  then show ?thesis
    by (cases "get_metric_values w m q s") (simp_all add: cooldown_inv_spaced)
qed

lemma network_traffic_preserves:
  assumes mono: "mono (clock w)" and inv: "cooldown_inv w m s"
  shows "post (\<lambda>_. cooldown_inv w m)
              (\<lambda>_ s'. spaced w (alert_cooldown m) (notifications (trace s')))
              (check_network_traffic w m s)"
  unfolding check_network_traffic_def
proof (rule post_and_then)
  show "post (\<lambda>_. cooldown_inv w m)
          (\<lambda>_ s'. spaced w (alert_cooldown m) (notifications (trace s')))
          (get_metric_values w m ''rate(minio_network_send_bytes_total[5m])'' s)"
    using inv by (rule get_metric_values_preserves)
next
  fix send_values s1
  assume inv1: "cooldown_inv w m s1"
  show "post (\<lambda>_. cooldown_inv w m)
          (\<lambda>_ s'. spaced w (alert_cooldown m) (notifications (trace s')))
          (and_then (get_metric_values w m ''rate(minio_network_receive_bytes_total[5m])'')
             (\<lambda>recv_values.
                if send_values = [] \<or> recv_values = [] then Return ()
                else for_each (check_network_signal w m)
                       [(''Network Send'', send_values), (''Network Receive'', recv_values)])
             s1)"
  proof (rule post_and_then)
    show "post (\<lambda>_. cooldown_inv w m)
            (\<lambda>_ s'. spaced w (alert_cooldown m) (notifications (trace s')))
            (get_metric_values w m ''rate(minio_network_receive_bytes_total[5m])'' s1)"
      using inv1 by (rule get_metric_values_preserves)
  next
    fix recv_values s2
    assume inv2: "cooldown_inv w m s2"
    have send: "post (\<lambda>_. cooldown_inv w m)
          (\<lambda>_ s'. spaced w (alert_cooldown m) (notifications (trace s')))
          (check_network_signal w m (''Network Send'', send_values) s2)"
      by (rule gated_preserves [OF mono inv2 gated_network_send]) simp
    have recv: "post (\<lambda>_. cooldown_inv w m)
          (\<lambda>_ s'. spaced w (alert_cooldown m) (notifications (trace s')))
          (check_network_signal w m (''Network Receive'', recv_values) s3)"
      if "cooldown_inv w m s3" for s3
      by (rule gated_preserves [OF mono that gated_network_receive]) simp
    have both: "post (\<lambda>_. cooldown_inv w m)
          (\<lambda>_ s'. spaced w (alert_cooldown m) (notifications (trace s')))
          (for_each (check_network_signal w m)
             [(''Network Send'', send_values), (''Network Receive'', recv_values)] s2)"
      unfolding for_each.simps
      apply (rule post_and_then)
       apply (rule send)
      apply (rule post_and_then)
       apply (rule recv)
       apply assumption
      apply simp
      done
    show "post (\<lambda>_. cooldown_inv w m)
          (\<lambda>_ s'. spaced w (alert_cooldown m) (notifications (trace s')))
          ((if send_values = [] \<or> recv_values = [] then Return ()
            else for_each (check_network_signal w m)
                   [(''Network Send'', send_values), (''Network Receive'', recv_values)]) s2)"
      using inv2 both by simp
  qed
qed

lemma time_sleep_untouched: "untouched s (result_state (time_sleep w seconds s))"
  by (simp add: time_sleep_def untouched_def)

lemma time_sleep_preserves:
  assumes "cooldown_inv w m s"
  shows "post (\<lambda>_. cooldown_inv w m)
              (\<lambda>_ s'. spaced w (alert_cooldown m) (notifications (trace s')))
              (time_sleep w seconds s)"
proof -
  have "cooldown_inv w m (result_state (time_sleep w seconds s))"
    using assms time_sleep_untouched by (rule cooldown_inv_untouched)
  then show ?thesis
    by (cases "time_sleep w seconds s") (simp_all add: cooldown_inv_spaced)
qed

lemma cycle_preserves:
  assumes mono: "mono (clock w)" and inv: "cooldown_inv w m s"
  shows "post (\<lambda>_. cooldown_inv w m)
              (\<lambda>_ s'. spaced w (alert_cooldown m) (notifications (trace s')))
              (cycle w m s)"
proof -
  have inv0: "cooldown_inv w m (logger INFO ''Running anomaly checks...'' s)"
    using inv by (rule cooldown_inv_untouched) simp
  show ?thesis
    unfolding cycle_def
    apply (rule post_and_then)
     apply (rule gated_preserves [OF mono inv0 gated_storage_space])
    apply (rule post_and_then)
     apply (rule gated_preserves [OF mono _ gated_request_rate])
     apply assumption
    apply (rule post_and_then)
     apply (rule network_traffic_preserves [OF mono])
     apply assumption
    apply (rule post_and_then)
     apply (rule gated_preserves [OF mono _ gated_error_rate])
     apply assumption
    apply (rule time_sleep_preserves)
    apply assumption
    done
qed

lemma while_true_preserves:
  assumes mono: "mono (clock w)"
  shows "cooldown_inv w m s \<Longrightarrow>
         (case while_true w m fuel s of
            Inr s' \<Rightarrow> cooldown_inv w m s'
          | Inl (e, s') \<Rightarrow> spaced w (alert_cooldown m) (notifications (trace s')))"
proof (induction fuel arbitrary: s)
  case 0
  then show ?case by simp
next
  case (Suc fuel)
  from cycle_preserves [OF mono Suc.prems] show ?case
    by (cases "cycle w m s") (simp_all add: Suc.IH)
qed

lemma cooldown_inv_init: "cooldown_inv w m init_state"
  by (simp add: cooldown_inv_iff init_state_def)

lemma run_spaced:
  assumes mono: "mono (clock w)" and inv: "cooldown_inv w m s"
  shows "spaced w (alert_cooldown m) (notifications (trace (final_state (run w m fuel s))))"
proof -
  have inv0: "cooldown_inv w m (logger INFO ''Starting monitoring loop'' s)"
    using inv by (rule cooldown_inv_untouched) simp
  from while_true_preserves [OF mono inv0, of fuel] show ?thesis
    by (auto simp: run_def time_sleep_def cooldown_inv_spaced split: sum.splits)
qed

lemma spaced_nth:
  "spaced w c ns \<Longrightarrow> i < j \<Longrightarrow> j < length ns \<Longrightarrow>
   alert_key (sent_alert (ns ! i)) = alert_key (sent_alert (ns ! j)) \<Longrightarrow>
   clock w (sent_at (ns ! i)) - clock w (sent_at (ns ! j)) > c"
proof (induction ns arbitrary: i j)
  case Nil
  then show ?case by simp
next
  case (Cons n ns)
  show ?case
  proof (cases i)
    case 0
    with Cons.prems obtain j' where j': "j = Suc j'" "j' < length ns"
      by (cases j) auto
    then have "ns ! j' \<in> set ns" by simp
    with Cons.prems 0 j' show ?thesis by auto
  next
    case (Suc i')
    with Cons.prems obtain j' where "j = Suc j'" "i' < j'" "j' < length ns"
      by (cases j) auto
    with Cons.prems Suc Cons.IH [of i' j'] show ?thesis by simp
  qed
qed


subsection \<open>Every attempt is followed by its stamp\<close>

lemma attempts_since_append:
  "notifications (trace s') = new @ notifications (trace s) \<Longrightarrow> attempts_since s s' = new"
  by (simp add: attempts_since_def)

lemma attempts_since_same:
  "notifications (trace s') = notifications (trace s) \<Longrightarrow> attempts_since s s' = []"
  by (simp add: attempts_since_def)

lemma attempts_since_one:
  "notifications (trace s') = n # notifications (trace s) \<Longrightarrow> attempts_since s s' = [n]"
  using attempts_since_append [of s' "[n]" s] by simp

lemma gated_recorded_after:
  assumes "gated w m k s r"
  shows "recorded_after w s r"
proof (cases "untouched s (result_state r)")
  case True
  then show ?thesis
    by (simp add: recorded_after_def untouched_def attempts_since_same)
next
  case False
  with assms obtain n where key: "alert_key (sent_alert n) = k"
    and ns: "notifications (trace (result_state r)) = n # notifications (trace s)"
    and res: "case r of
                Raise e s' \<Rightarrow> sent_reply n = WebhookInterrupt
                   \<and> alert_cooldown_dict s' = alert_cooldown_dict s
              | Return u s' \<Rightarrow> sent_reply n \<noteq> WebhookInterrupt \<and> Suc (sent_at n) < tick s'
                   \<and> alert_cooldown_dict s' =
                       (alert_cooldown_dict s)(k \<mapsto> clock w (Suc (sent_at n)))"
    unfolding gated_def by blast
  show ?thesis
    using key res attempts_since_one [OF ns] by (cases r) (simp_all add: recorded_after_def)
qed

lemma and_then_Return_eq: "f s = Return a s' \<Longrightarrow> and_then f g s = g a s'"
  by (simp add: and_then_def)

lemma and_then_Raise_eq: "f s = Raise e s' \<Longrightarrow> and_then f g s = Raise e s'"
  by (simp add: and_then_def)

lemma and_then_Return_right: "and_then f Return = f"
proof
  fix s show "and_then f Return s = f s"
    by (cases "f s") (simp_all add: and_then_def)
qed

lemma recorded_after_compose:
  assumes g1: "gated w m k1 s (Return u s3)"
    and g2: "gated w m k2 s3 r2"
    and neq: "k1 \<noteq> k2"
  shows "recorded_after w s r2"
proof (cases "untouched s s3")
  case u1: True
  then have same: "notifications (trace s3) = notifications (trace s)"
    "alert_cooldown_dict s3 = alert_cooldown_dict s"
    by (simp_all add: untouched_def)
  have "recorded_after w s3 r2"
    using g2 by (rule gated_recorded_after)
  then show ?thesis
    by (simp add: recorded_after_def attempts_since_def same)
next
  case a1: False
  with g1 obtain n1 where key1: "alert_key (sent_alert n1) = k1"
    and ns1: "notifications (trace s3) = n1 # notifications (trace s)"
    and d1: "alert_cooldown_dict s3 = (alert_cooldown_dict s)(k1 \<mapsto> clock w (Suc (sent_at n1)))"
    unfolding gated_def by auto
  show ?thesis
  proof (cases "untouched s3 (result_state r2)")
    case True
    then have same: "notifications (trace (result_state r2)) = [n1] @ notifications (trace s)"
      "alert_cooldown_dict (result_state r2) = alert_cooldown_dict s3"
      by (simp_all add: untouched_def ns1)
    show ?thesis
      using key1 by (simp add: recorded_after_def attempts_since_append [OF same(1)] same(2) d1)
  next
    case False
    with g2 obtain n2 where key2: "alert_key (sent_alert n2) = k2"
      and ns2: "notifications (trace (result_state r2)) = n2 # notifications (trace s3)"
      and res: "case r2 of
                  Raise e s' \<Rightarrow> sent_reply n2 = WebhookInterrupt
                     \<and> alert_cooldown_dict s' = alert_cooldown_dict s3
                | Return u s' \<Rightarrow> sent_reply n2 \<noteq> WebhookInterrupt \<and> Suc (sent_at n2) < tick s'
                     \<and> alert_cooldown_dict s' =
                         (alert_cooldown_dict s3)(k2 \<mapsto> clock w (Suc (sent_at n2)))"
      unfolding gated_def by blast
    have both: "notifications (trace (result_state r2)) = [n2, n1] @ notifications (trace s)"
      by (simp add: ns2 ns1)
    show ?thesis
      using key1 key2 res neq attempts_since_append [OF both]
      by (cases r2) (simp_all add: recorded_after_def d1)
  qed
qed

lemma send_alert_contained:
  "send_alert w alert insight s =
     (if discord_api w (tick s) = WebhookInterrupt
      then Raise KeyboardInterrupt
             (s\<lparr>tick := Suc (tick s),
                trace := Sent \<lparr>sent_alert = alert, sent_insight = insight, sent_at = tick s,
                               sent_reply = WebhookInterrupt\<rparr> # trace s\<rparr>)
      else if (\<exists>c. discord_api w (tick s) = WebhookResponse c \<and> \<not> (400 \<le> c \<and> c < 600))
      then Return True
             (s\<lparr>tick := Suc (tick s),
                trace := Logged INFO ''Alert sent to Discord''
                  # Sent \<lparr>sent_alert = alert, sent_insight = insight, sent_at = tick s,
                          sent_reply = discord_api w (tick s)\<rparr> # trace s\<rparr>)
      else Return False
             (s\<lparr>tick := Suc (tick s),
                trace := Logged ERROR ''Failed to send Discord alert''
                  # Sent \<lparr>sent_alert = alert, sent_insight = insight, sent_at = tick s,
                          sent_reply = discord_api w (tick s)\<rparr> # trace s\<rparr>))"
  by (auto simp: send_alert_def logger_def Let_def split: webhook_reply.splits)

lemma network_traffic_recorded_after: "recorded_after w s (check_network_traffic w m s)"
proof (cases "get_metric_values w m ''rate(minio_network_send_bytes_total[5m])'' s")
  case (Raise e s1)
  then have "untouched s s1"
    using get_metric_values_untouched [of s w m "''rate(minio_network_send_bytes_total[5m])''"]
    by simp
  then show ?thesis
    using Raise
    by (simp add: check_network_traffic_def and_then_def recorded_after_def untouched_def
        attempts_since_same)
next
  case send: (Return sv s1)
  then have u1: "untouched s s1"
    using get_metric_values_untouched [of s w m "''rate(minio_network_send_bytes_total[5m])''"]
    by simp
  show ?thesis
  proof (cases "get_metric_values w m ''rate(minio_network_receive_bytes_total[5m])'' s1")
    case (Raise e s2)
    then have "untouched s1 s2"
      using get_metric_values_untouched
        [of s1 w m "''rate(minio_network_receive_bytes_total[5m])''"]
      by simp
    with u1 have "untouched s s2" by (rule untouched_trans)
    then show ?thesis
      using send Raise
      by (simp add: check_network_traffic_def and_then_def recorded_after_def untouched_def
          attempts_since_same)
  next
    case recv: (Return rv s2)
    then have "untouched s1 s2"
      using get_metric_values_untouched
        [of s1 w m "''rate(minio_network_receive_bytes_total[5m])''"]
      by simp
    with u1 have u2: "untouched s s2" by (rule untouched_trans)
    show ?thesis
    proof (cases "sv = [] \<or> rv = []")
      case True
      then show ?thesis
        using send recv u2
        by (auto simp add: check_network_traffic_def and_then_def recorded_after_def untouched_def
            attempts_since_same)
    next
      case False
      let ?r1 = "check_network_signal w m (''Network Send'', sv) s2"
      have g1: "gated w m ''network_send'' s ?r1"
        using u2 by (rule gated_network_send)
      have eq: "check_network_traffic w m s =
                  and_then (check_network_signal w m (''Network Send'', sv))
                    (\<lambda>_. check_network_signal w m (''Network Receive'', rv)) s2"
        using send recv False
        by (simp add: check_network_traffic_def and_then_Return_right
            and_then_Return_eq
              [where f = "get_metric_values w m ''rate(minio_network_send_bytes_total[5m])''"
                 and s = s, OF send]
            and_then_Return_eq
              [where f = "get_metric_values w m ''rate(minio_network_receive_bytes_total[5m])''"
                 and s = s1, OF recv])
      show ?thesis
      proof (cases ?r1)
        case (Raise e s3)
        then show ?thesis
          using gated_recorded_after [OF g1] by (simp add: eq and_then_def)
      next
        case (Return u s3)
        let ?r2 = "check_network_signal w m (''Network Receive'', rv) s3"
        have g2: "gated w m ''network_receive'' s3 ?r2"
          by (rule gated_network_receive) simp
        have r: "check_network_traffic w m s = ?r2"
          using Return by (simp add: eq and_then_def)
        from g1 Return have g1': "gated w m ''network_send'' s (Return u s3)"
          by simp
        show ?thesis
          unfolding r using g1' g2 by (rule recorded_after_compose) simp
      qed
    qed
  qed
qed


subsection \<open>Scenarios\<close>

lemma roc_1_3: "rate_of_change_anomaly [1, 3] 100 = (True, 200)"
  by (simp add: rate_of_change_anomaly_def fsub_def fdiv_def fmul_def)

lemma zscore_1_3: "zscore_anomaly sequential_sum [1, 3] 2 = (False, 1, (0, 4))"
  by (simp add: zscore_anomaly_def np_mean_def np_std_def sequential_sum_def Let_def
      fadd_def fsub_def fmul_def fdiv_def fsqrt_def)

lemma sqrt_9: "sqrt 9 = 3"
proof -
  have "sqrt ((3 :: real)\<^sup>2) = \<bar>3\<bar>" by (rule real_sqrt_abs)
  then show ?thesis by simp
qed

lemma zscore_spike:
  "zscore_anomaly sequential_sum spike (5 / 2) = (True, 3, (- 13 / 2, 17 / 2))"
  by (simp add: zscore_anomaly_def np_mean_def np_std_def sequential_sum_def Let_def
      fadd_def fsub_def fmul_def fdiv_def fsqrt_def spike_def sqrt_9)

lemma zscore_flat: "zscore_anomaly sequential_sum flat t = (False, 0, (5, 5))"
  by (simp add: zscore_anomaly_def np_mean_def np_std_def sequential_sum_def Let_def
      fadd_def fsub_def fmul_def fdiv_def fsqrt_def flat_def)

lemma parse_spike: "parse_values (map Numeric spike) = Some spike"
  by (simp add: spike_def)

lemma parse_flat: "parse_values (map Numeric flat) = Some flat"
  by (simp add: flat_def)

text \<open>
  Two consecutive cycles detect the same anomaly a thousand seconds apart: two
  notifications.
\<close>

lemma busy_run:
  "notifications (trace (final_state (run busy_world reference_monitor 2 init_state))) =
     [\<lparr>sent_alert = \<lparr>metric_name = ''Request Rate (requests/sec)'', current_value = 3,
                     expected_range = (0, 4), severity = ''medium'', timestamp = 2300,
                     alert_context = RateOfChange 200\<rparr>,
       sent_insight = [], sent_at = 14, sent_reply = WebhookResponse 204\<rparr>,
      \<lparr>sent_alert = \<lparr>metric_name = ''Request Rate (requests/sec)'', current_value = 3,
                     expected_range = (0, 4), severity = ''medium'', timestamp = 1300,
                     alert_context = RateOfChange 200\<rparr>,
       sent_insight = [], sent_at = 4, sent_reply = WebhookResponse 204\<rparr>]"
  by (simp add: run_def cycle_def check_storage_space_def check_request_rate_def
      check_network_traffic_def check_error_rate_def get_metric_values_def query_range_def
      detected_and_can_alert_def can_alert_def record_alert_def send_alert_def time_time_def
      time_sleep_def and_then_def logger_def Let_def
      busy_world_def quiet_world_def reference_monitor_def init_state_def error_rate_query_def
      roc_1_3 zscore_1_3 numeral_2_eq_2)

text \<open>
  Two consecutive cycles detect the same anomaly within the cooldown: one notification.
\<close>

lemma steady_run:
  "notifications (trace (final_state (run steady_world reference_monitor 2 init_state))) =
     [\<lparr>sent_alert = \<lparr>metric_name = ''Request Rate (requests/sec)'', current_value = 3,
                     expected_range = (0, 4), severity = ''medium'', timestamp = 1030,
                     alert_context = RateOfChange 200\<rparr>,
       sent_insight = [], sent_at = 4, sent_reply = WebhookResponse 204\<rparr>]"
  by (simp add: run_def cycle_def check_storage_space_def check_request_rate_def
      check_network_traffic_def check_error_rate_def get_metric_values_def query_range_def
      detected_and_can_alert_def can_alert_def record_alert_def send_alert_def time_time_def
      time_sleep_def and_then_def logger_def Let_def steady_world_def
      busy_world_def quiet_world_def reference_monitor_def init_state_def error_rate_query_def
      roc_1_3 zscore_1_3 numeral_2_eq_2)

lemma refused_request_rate:
  "check_request_rate refusing_world reference_monitor init_state =
     Return ()
       \<lparr>alert_cooldown_dict = [''request_rate'' \<mapsto> 1400], tick = 5,
        trace = [Logged ERROR ''Failed to send Discord alert'',
                 Sent \<lparr>sent_alert = \<lparr>metric_name = ''Request Rate (requests/sec)'',
                                      current_value = 3, expected_range = (0, 4),
                                      severity = ''medium'', timestamp = 1200,
                                      alert_context = RateOfChange 200\<rparr>,
                        sent_insight = [], sent_at = 3, sent_reply = WebhookResponse 500\<rparr>]\<rparr>"
  by (simp add: check_request_rate_def get_metric_values_def query_range_def
      detected_and_can_alert_def can_alert_def record_alert_def send_alert_def time_time_def
      and_then_def logger_def Let_def refusing_world_def
      busy_world_def quiet_world_def reference_monitor_def init_state_def
      roc_1_3 zscore_1_3)

lemma send_only_network:
  "check_network_traffic send_only_world reference_monitor init_state =
     Return () \<lparr>alert_cooldown_dict = Map.empty, tick = 2, trace = []\<rparr>"
  by (simp add: check_network_traffic_def get_metric_values_def query_range_def
      and_then_def Let_def send_only_world_def quiet_world_def reference_monitor_def
      init_state_def parse_spike)

lemma both_network:
  "check_network_traffic network_world reference_monitor init_state =
     Return ()
       \<lparr>alert_cooldown_dict = [''network_send'' \<mapsto> 1500], tick = 6,
        trace = [Logged INFO ''Alert sent to Discord'',
                 Sent \<lparr>sent_alert = \<lparr>metric_name = ''Network Send (bytes/sec)'',
                                      current_value = fdiv 10 1000000,
                                      expected_range =
                                        (fdiv (- 13 / 2) 1000000, fdiv (17 / 2) 1000000),
                                      severity = ''medium'', timestamp = 1300,
                                      alert_context = NoContext\<rparr>,
                        sent_insight = [], sent_at = 4, sent_reply = WebhookResponse 204\<rparr>]\<rparr>"
  apply (simp add: check_network_traffic_def get_metric_values_def query_range_def
      check_network_signal_def network_alert_key_send network_alert_key_receive
      detected_and_can_alert_def can_alert_def record_alert_def send_alert_def time_time_def
      and_then_def logger_def Let_def network_world_def quiet_world_def reference_monitor_def
      init_state_def parse_spike parse_flat zscore_spike zscore_flat)
  apply (simp add: spike_def flat_def)
  done


subsection \<open>Empty series and the network signals\<close>

lemma query_range_tick: "tick (result_state (query_range w q h s)) = Suc (tick s)"
  by (simp add: query_range_def Let_def split: prom_reply.splits)

lemma get_metric_values_tick: "tick (result_state (get_metric_values w m q s)) = Suc (tick s)"
  using query_range_tick [of w q "history_hours m" s]
  unfolding get_metric_values_def and_then_def
  by (cases "query_range w q (history_hours m) s")
    (auto split: list.splits prom_series.splits option.splits)

lemma empty_series_skips:
  assumes "get_metric_values w m q s = Return [] s1"
  shows "untouched s s1 \<and> tick s1 = Suc (tick s)"
  using get_metric_values_untouched [of s w m q] get_metric_values_tick [of w m q s] assms
  by simp

lemma network_signal_decision:
  "(attempts_since s (result_state (check_network_signal w m (name, vs) s)) \<noteq> []
     \<longleftrightarrow> fst (zscore_anomaly (numpy_sum w) vs (zscore_threshold m))
         \<and> clock w (tick s)
             - (case alert_cooldown_dict s (network_alert_key name) of None \<Rightarrow> 0 | Some t \<Rightarrow> t)
           > alert_cooldown m)
   \<and> (\<forall>k. k \<noteq> network_alert_key name \<longrightarrow>
          alert_cooldown_dict (result_state (check_network_signal w m (name, vs) s)) k
            = alert_cooldown_dict s k)"
proof (cases "zscore_anomaly (numpy_sum w) vs (zscore_threshold m)" rule: prod_cases3)
  case (fields is_anomaly zscore expected)
  show ?thesis
  proof (cases "is_anomaly \<and> clock w (tick s)
             - (case alert_cooldown_dict s (network_alert_key name) of None \<Rightarrow> 0 | Some t \<Rightarrow> t)
           > alert_cooldown m")
    case False
    then show ?thesis
      using fields
      by (auto simp: check_network_signal_def detected_and_can_alert_def can_alert_def
          time_time_def and_then_def attempts_since_def)
  next
    case True
    let ?k = "network_alert_key name"
    let ?s1 = "s\<lparr>tick := Suc (tick s)\<rparr>"
    let ?s2 = "s\<lparr>tick := Suc (Suc (tick s))\<rparr>"
    let ?alert = "\<lparr>metric_name = name @ '' (bytes/sec)'',
                   current_value = fdiv (last vs) 1000000,
                   expected_range =
                     (fdiv (fst expected) 1000000, fdiv (snd expected) 1000000),
                   severity = (if zscore > 4 then ''high'' else ''medium''),
                   timestamp = clock w (Suc (tick s)),
                   alert_context = NoContext\<rparr>"
    have can: "can_alert w m ?k s = Return True ?s1"
      using True by (simp add: can_alert_def time_time_def and_then_def)
    have tt: "time_time w ?s1 = Return (clock w (Suc (tick s))) ?s2"
      by (simp add: time_time_def)
    have eq: "check_network_signal w m (name, vs) s =
                and_then (send_alert w ?alert []) (\<lambda>_. record_alert w ?k) ?s2"
      using True
      by (simp add: check_network_signal_def fields detected_and_can_alert_def Let_def
          and_then_Return_eq [where f = "can_alert w m ?k" and s = s, OF can]
          and_then_Return_eq [where f = "time_time w" and s = ?s1, OF tt]
          split del: if_split)
    show ?thesis
      unfolding eq send_then_record
      using True fields by (simp add: attempts_since_def)
  qed
qed


section \<open>The claims about the monitor\<close>

text \<open>
  Claim C1. Along every run of the monitor from its initial state, under a clock that
  does not run backwards, any two notification attempts (calls of \<open>send_alert\<close>) for
  the same key lie more than \<open>alert_cooldown\<close> seconds apart, however many cycles
  detect the anomaly: each attempt comes after a reading of the clock that \<open>_can_alert\<close>
  found more than the cooldown past the stamp of the key, and is followed by
  \<open>_record_alert\<close>.
\<close>

theorem cooldown_separates_deliveries:
  assumes "mono (clock w)"
    and "ns = notifications (trace (final_state (run w m fuel init_state)))"
    and "i < j" and "j < length ns"
    and "alert_key (sent_alert (ns ! i)) = alert_key (sent_alert (ns ! j))"
  shows "clock w (sent_at (ns ! i)) - clock w (sent_at (ns ! j)) > alert_cooldown m"
proof -
  have "spaced w (alert_cooldown m) ns"
    unfolding assms(2) using assms(1) cooldown_inv_init by (rule run_spaced)
  then show ?thesis
    using assms(3-5) by (rule spaced_nth)
qed

theorem cooldown_separates_deliveries_witness:
  "mono (clock busy_world)
   \<and> map (\<lambda>n. (alert_key (sent_alert n), sent_at n))
       (notifications (trace (final_state (run busy_world reference_monitor 2 init_state))))
     = [(''request_rate'', 14), (''request_rate'', 4)]
   \<and> clock busy_world 14 - clock busy_world 4 > alert_cooldown reference_monitor"
proof -
  have mono: "mono (clock busy_world)"
    by (simp add: busy_world_def quiet_world_def mono_def)
  show ?thesis
    using mono
      cooldown_separates_deliveries [where w = busy_world and m = reference_monitor
        and fuel = 2 and i = 0 and j = 1, OF mono refl]
    by (simp add: busy_run alert_key_def)
qed

text \<open>
  Once a pass of the loop has raised, no amount of further fuel makes the loop go on.
\<close>

lemma while_true_stops:
  "while_true w m fuel s = Inl x \<Longrightarrow> while_true w m (fuel + extra) s = Inl x"
proof (induction fuel arbitrary: s)
  case 0
  then show ?case by simp
next
  case (Suc fuel)
  then show ?case by (cases "cycle w m s") simp_all
qed

text \<open>
  Claim C2 says that an exception raised inside a cycle is caught and logged and that
  the loop goes on with the next cycle after one sleep. The code behaves otherwise:
  when the first query of the first cycle raises (a series without \<open>values\<close>), \<open>run\<close>
  logs the error, sleeps once and returns, whatever number of cycles was still to come.
\<close>

theorem run_ends_after_failed_cycle:
  "run malformed_world reference_monitor (Suc n) init_state =
     Returned \<lparr>alert_cooldown_dict = Map.empty, tick = 2,
               trace = [Slept 60, Logged ERROR ''Unexpected error'',
                        Logged INFO ''Running anomaly checks...'',
                        Logged INFO ''Starting monitoring loop'']\<rparr>"
  by (simp add: run_def cycle_def check_storage_space_def get_metric_values_def query_range_def
      and_then_def logger_def time_sleep_def init_state_def malformed_world_def quiet_world_def
      reference_monitor_def Let_def)

lemma can_alert_eq:
  "can_alert w m k s =
     Return (clock w (tick s) - (case alert_cooldown_dict s k of None \<Rightarrow> 0 | Some t \<Rightarrow> t)
               > alert_cooldown m)
            (s\<lparr>tick := Suc (tick s)\<rparr>)"
  by (simp add: can_alert_def time_time_def and_then_def)

lemma record_alert_eq:
  "record_alert w k s =
     Return () (s\<lparr>tick := Suc (tick s),
                  alert_cooldown_dict := (alert_cooldown_dict s)(k \<mapsto> clock w (tick s))\<rparr>)"
  by (simp add: record_alert_def time_time_def and_then_def)

text \<open>
  Claim C6. The clock is the wall clock of the host, Unix time, and its reading exceeds
  the cooldown. Then \<open>_can_alert(k)\<close> returns true iff no alert was ever recorded for
  \<open>k\<close>, or the time elapsed since the last \<open>_record_alert(k)\<close> strictly exceeds
  \<open>alert_cooldown\<close>. \<open>_record_alert(k)\<close> stamps the current time against \<open>k\<close> and leaves
  every other key as it was, so the answer of \<open>_can_alert(k2)\<close> for another key \<open>k2\<close>
  after the recording is the one that the entry of \<open>k2\<close> before the recording gives.
\<close>

theorem alert_gate:
  assumes "alert_cooldown m < clock w (tick s)"
  shows "(can_alert w m k s = Return True (s\<lparr>tick := Suc (tick s)\<rparr>)
           \<or> can_alert w m k s = Return False (s\<lparr>tick := Suc (tick s)\<rparr>))
         \<and> (can_alert w m k s = Return True (s\<lparr>tick := Suc (tick s)\<rparr>)
              \<longleftrightarrow> alert_cooldown_dict s k = None
                  \<or> (\<exists>t. alert_cooldown_dict s k = Some t
                          \<and> clock w (tick s) - t > alert_cooldown m))
         \<and> record_alert w k s =
             Return () (s\<lparr>tick := Suc (tick s),
                          alert_cooldown_dict :=
                            (alert_cooldown_dict s)(k \<mapsto> clock w (tick s))\<rparr>)
         \<and> (k2 \<noteq> k \<longrightarrow>
              alert_cooldown_dict (result_state (record_alert w k s)) k2
                = alert_cooldown_dict s k2
              \<and> can_alert w m k2 (result_state (record_alert w k s)) =
                  Return (clock w (Suc (tick s))
                            - (case alert_cooldown_dict s k2 of None \<Rightarrow> 0 | Some t \<Rightarrow> t)
                          > alert_cooldown m)
                         ((result_state (record_alert w k s))\<lparr>tick := Suc (Suc (tick s))\<rparr>))"
  using assms by (auto simp: can_alert_eq record_alert_eq split: option.splits)

theorem alert_gate_witness:
  "alert_cooldown reference_monitor < clock quiet_world (tick init_state)
   \<and> ''error_rate'' \<noteq> ''storage_space''
   \<and> can_alert quiet_world reference_monitor ''storage_space'' init_state
       = Return True (init_state\<lparr>tick := 1\<rparr>)
   \<and> record_alert quiet_world ''storage_space'' init_state
       = Return () \<lparr>alert_cooldown_dict = [''storage_space'' \<mapsto> 1000], tick = 1, trace = []\<rparr>
   \<and> can_alert quiet_world reference_monitor ''storage_space''
         \<lparr>alert_cooldown_dict = [''storage_space'' \<mapsto> 1000], tick = 1, trace = []\<rparr>
       = Return False \<lparr>alert_cooldown_dict = [''storage_space'' \<mapsto> 1000], tick = 2, trace = []\<rparr>
   \<and> can_alert quiet_world reference_monitor ''error_rate''
         \<lparr>alert_cooldown_dict = [''storage_space'' \<mapsto> 1000], tick = 1, trace = []\<rparr>
       = Return True \<lparr>alert_cooldown_dict = [''storage_space'' \<mapsto> 1000], tick = 2, trace = []\<rparr>"
proof -
  let ?s1 = "\<lparr>alert_cooldown_dict = [''storage_space'' \<mapsto> 1000], tick = 1, trace = []\<rparr>"
  have h: "alert_cooldown reference_monitor < clock quiet_world (tick init_state)"
    by (simp add: quiet_world_def reference_monitor_def init_state_def)
  have r: "record_alert quiet_world ''storage_space'' init_state = Return () ?s1"
    by (simp add: record_alert_def time_time_def and_then_def quiet_world_def init_state_def)
  have g: "can_alert quiet_world reference_monitor ''storage_space'' init_state
             = Return True (init_state\<lparr>tick := 1\<rparr>)"
    using alert_gate [OF h, where k = "''storage_space''" and ?k2.0 = "''error_rate''"]
    by (simp add: init_state_def)
  have g1: "can_alert quiet_world reference_monitor ''storage_space'' ?s1
              = Return False (?s1\<lparr>tick := 2\<rparr>)"
    by (simp add: can_alert_def time_time_def and_then_def quiet_world_def reference_monitor_def)
  have g2: "can_alert quiet_world reference_monitor ''error_rate'' ?s1
              = Return True (?s1\<lparr>tick := 2\<rparr>)"
    by (simp add: can_alert_def time_time_def and_then_def quiet_world_def reference_monitor_def)
  show ?thesis
    using h r g g1 g2 by simp
qed

text \<open>
  Claim C7. \<open>send_alert\<close> raises nothing but the interrupt of the user: a transport
  failure or an HTTP error status is logged and answered with \<open>False\<close>. In every
  evaluator, each notification attempt that was not interrupted is followed at once by
  the stamp for its key, whether the delivery succeeded or failed.
\<close>

theorem delivery_failure_is_contained:
  "send_alert w alert insight s =
     (if discord_api w (tick s) = WebhookInterrupt
      then Raise KeyboardInterrupt
             (s\<lparr>tick := Suc (tick s),
                trace := Sent \<lparr>sent_alert = alert, sent_insight = insight, sent_at = tick s,
                               sent_reply = WebhookInterrupt\<rparr> # trace s\<rparr>)
      else if (\<exists>c. discord_api w (tick s) = WebhookResponse c \<and> \<not> (400 \<le> c \<and> c < 600))
      then Return True
             (s\<lparr>tick := Suc (tick s),
                trace := Logged INFO ''Alert sent to Discord''
                  # Sent \<lparr>sent_alert = alert, sent_insight = insight, sent_at = tick s,
                          sent_reply = discord_api w (tick s)\<rparr> # trace s\<rparr>)
      else Return False
             (s\<lparr>tick := Suc (tick s),
                trace := Logged ERROR ''Failed to send Discord alert''
                  # Sent \<lparr>sent_alert = alert, sent_insight = insight, sent_at = tick s,
                          sent_reply = discord_api w (tick s)\<rparr> # trace s\<rparr>))
   \<and> recorded_after w s (check_storage_space w m s)
   \<and> recorded_after w s (check_request_rate w m s)
   \<and> recorded_after w s (check_network_traffic w m s)
   \<and> recorded_after w s (check_error_rate w m s)"
  by (intro conjI send_alert_contained network_traffic_recorded_after
      gated_recorded_after [OF gated_storage_space]
      gated_recorded_after [OF gated_request_rate]
      gated_recorded_after [OF gated_error_rate])

theorem delivery_failure_is_contained_witness:
  "map (\<lambda>n. (alert_key (sent_alert n), sent_at n, sent_reply n))
     (attempts_since init_state
        (result_state (check_request_rate refusing_world reference_monitor init_state)))
     = [(''request_rate'', 3, WebhookResponse 500)]
   \<and> alert_cooldown_dict
         (result_state (check_request_rate refusing_world reference_monitor init_state))
         ''request_rate''
       = Some (clock refusing_world 4)
   \<and> clock refusing_world 4 = 1400"
proof -
  let ?r = "check_request_rate refusing_world reference_monitor init_state"
  have a: "map (\<lambda>n. (alert_key (sent_alert n), sent_at n, sent_reply n))
             (attempts_since init_state (result_state ?r))
           = [(''request_rate'', 3, WebhookResponse 500)]"
    unfolding refused_request_rate
    by (simp add: attempts_since_def init_state_def alert_key_def)
  have "recorded_after refusing_world init_state ?r"
    using delivery_failure_is_contained [of refusing_world _ _ init_state reference_monitor]
    by blast
  then have d: "alert_cooldown_dict (result_state ?r) ''request_rate''
                  = Some (clock refusing_world 4)"
    unfolding refused_request_rate recorded_after_def
    by (simp add: attempts_since_def init_state_def alert_key_def)
  have c: "clock refusing_world 4 = 1400"
    by (simp add: refusing_world_def busy_world_def quiet_world_def)
  show ?thesis
    using a d c by simp
qed

lemma empty_series_returns:
  assumes "get_metric_values w m q s = Return [] s1"
  shows "and_then (get_metric_values w m q) (\<lambda>vs. if vs = [] then Return () else f vs) s
           = Return () s1"
  using assms by (simp add: and_then_def)

lemma send_only_queries:
  "get_metric_values send_only_world reference_monitor
      ''rate(minio_network_send_bytes_total[5m])'' init_state
     = Return spike (init_state\<lparr>tick := 1\<rparr>)
   \<and> get_metric_values send_only_world reference_monitor
      ''rate(minio_network_receive_bytes_total[5m])'' (init_state\<lparr>tick := 1\<rparr>)
     = Return [] (init_state\<lparr>tick := 2\<rparr>)"
  by (simp add: get_metric_values_def query_range_def and_then_def Let_def send_only_world_def
      quiet_world_def init_state_def parse_spike)

lemma send_signal_alone:
  "check_network_signal send_only_world reference_monitor (''Network Send'', spike)
       (init_state\<lparr>tick := 2\<rparr>)
     = Return ()
       \<lparr>alert_cooldown_dict = [''network_send'' \<mapsto> 1500], tick = 6,
        trace = [Logged INFO ''Alert sent to Discord'',
                 Sent \<lparr>sent_alert = \<lparr>metric_name = ''Network Send (bytes/sec)'',
                                      current_value = fdiv 10 1000000,
                                      expected_range =
                                        (fdiv (- 13 / 2) 1000000, fdiv (17 / 2) 1000000),
                                      severity = ''medium'', timestamp = 1300,
                                      alert_context = NoContext\<rparr>,
                        sent_insight = [], sent_at = 4, sent_reply = WebhookResponse 204\<rparr>]\<rparr>"
  apply (simp add: check_network_signal_def network_alert_key_send
      detected_and_can_alert_def can_alert_def record_alert_def send_alert_def time_time_def
      and_then_def logger_def Let_def send_only_world_def quiet_world_def reference_monitor_def
      init_state_def zscore_spike)
  apply (simp add: spike_def)
  done

text \<open>
  The statement of claim C8 fails for the network signals: with a spike in the bytes
  sent and no series for the bytes received, the send signal on its own would be
  notified, and \<open>check_network_traffic\<close> does nothing.
\<close>

theorem network_signals_not_independent_counterexample:
  "get_metric_values send_only_world reference_monitor
      ''rate(minio_network_send_bytes_total[5m])'' init_state
     = Return spike (init_state\<lparr>tick := 1\<rparr>)
   \<and> get_metric_values send_only_world reference_monitor
      ''rate(minio_network_receive_bytes_total[5m])'' (init_state\<lparr>tick := 1\<rparr>)
     = Return [] (init_state\<lparr>tick := 2\<rparr>)
   \<and> zscore_anomaly sequential_sum spike (zscore_threshold reference_monitor)
       = (True, 3, (- 13 / 2, 17 / 2))
   \<and> attempts_since (init_state\<lparr>tick := 2\<rparr>)
        (result_state (check_network_signal send_only_world reference_monitor
           (''Network Send'', spike) (init_state\<lparr>tick := 2\<rparr>))) \<noteq> []
   \<and> check_network_traffic send_only_world reference_monitor init_state
     = Return () \<lparr>alert_cooldown_dict = Map.empty, tick = 2, trace = []\<rparr>"
proof -
  have z: "zscore_anomaly sequential_sum spike (zscore_threshold reference_monitor)
             = (True, 3, (- 13 / 2, 17 / 2))"
    using zscore_spike by (simp add: reference_monitor_def)
  have a: "attempts_since (init_state\<lparr>tick := 2\<rparr>)
        (result_state (check_network_signal send_only_world reference_monitor
           (''Network Send'', spike) (init_state\<lparr>tick := 2\<rparr>))) \<noteq> []"
    unfolding send_signal_alone by (simp add: attempts_since_def init_state_def)
  show ?thesis
    using send_only_queries z a send_only_network by simp
qed

text \<open>
  Claim C8, amended. When the metric source returns an empty series for a signal, the
  evaluator of that signal returns at once: no detection, no cooldown entry written, no
  notification attempt. The network evaluator does so when the send series or the
  receive series is empty, for both signals; when both are non-empty it evaluates the
  send signal and then the receive signal, each decided by its own series and the entry
  of its own key (\<open>network_send\<close>, \<open>network_receive\<close>) and leaving every other entry
  as it was.
\<close>

theorem empty_series_is_skipped:
  "(get_metric_values w m ''minio_disk_storage_bytes_free'' s = Return [] s1 \<longrightarrow>
      check_storage_space w m s = Return () s1 \<and> untouched s s1 \<and> tick s1 = Suc (tick s))
   \<and> (get_metric_values w m ''rate(minio_gateway_requests_total[5m])'' s = Return [] s1 \<longrightarrow>
      check_request_rate w m s = Return () s1 \<and> untouched s s1 \<and> tick s1 = Suc (tick s))
   \<and> (get_metric_values w m error_rate_query s = Return [] s1 \<longrightarrow>
      check_error_rate w m s = Return () s1 \<and> untouched s s1 \<and> tick s1 = Suc (tick s))
   \<and> (get_metric_values w m ''rate(minio_network_send_bytes_total[5m])'' s = Return sv s1
       \<and> get_metric_values w m ''rate(minio_network_receive_bytes_total[5m])'' s1 = Return rv s2
       \<longrightarrow>
         untouched s s2 \<and> tick s2 = Suc (Suc (tick s))
         \<and> check_network_traffic w m s =
             (if sv = [] \<or> rv = [] then Return () s2
              else and_then (check_network_signal w m (''Network Send'', sv))
                     (\<lambda>_. check_network_signal w m (''Network Receive'', rv)) s2))
   \<and> network_alert_key ''Network Send'' = ''network_send''
   \<and> network_alert_key ''Network Receive'' = ''network_receive''
   \<and> (attempts_since s3 (result_state (check_network_signal w m (name, vs) s3)) \<noteq> []
        \<longleftrightarrow> fst (zscore_anomaly (numpy_sum w) vs (zscore_threshold m))
            \<and> clock w (tick s3)
                - (case alert_cooldown_dict s3 (network_alert_key name) of
                     None \<Rightarrow> 0 | Some t \<Rightarrow> t)
              > alert_cooldown m)
   \<and> (\<forall>k. k \<noteq> network_alert_key name \<longrightarrow>
          alert_cooldown_dict (result_state (check_network_signal w m (name, vs) s3)) k
            = alert_cooldown_dict s3 k)"
proof (intro conjI impI)
  assume a: "get_metric_values w m ''minio_disk_storage_bytes_free'' s = Return [] s1"
  show "check_storage_space w m s = Return () s1"
    unfolding check_storage_space_def using a by (rule empty_series_returns)
  show "untouched s s1" "tick s1 = Suc (tick s)"
    using empty_series_skips [OF a] by simp_all
next
  assume a: "get_metric_values w m ''rate(minio_gateway_requests_total[5m])'' s = Return [] s1"
  show "check_request_rate w m s = Return () s1"
    unfolding check_request_rate_def using a by (rule empty_series_returns)
  show "untouched s s1" "tick s1 = Suc (tick s)"
    using empty_series_skips [OF a] by simp_all
next
  assume a: "get_metric_values w m error_rate_query s = Return [] s1"
  show "check_error_rate w m s = Return () s1"
    unfolding check_error_rate_def using a by (rule empty_series_returns)
  show "untouched s s1" "tick s1 = Suc (tick s)"
    using empty_series_skips [OF a] by simp_all
next
  assume a: "get_metric_values w m ''rate(minio_network_send_bytes_total[5m])'' s = Return sv s1
       \<and> get_metric_values w m ''rate(minio_network_receive_bytes_total[5m])'' s1 = Return rv s2"
  then have send: "get_metric_values w m ''rate(minio_network_send_bytes_total[5m])'' s
                     = Return sv s1"
    and recv: "get_metric_values w m ''rate(minio_network_receive_bytes_total[5m])'' s1
                 = Return rv s2"
    by simp_all
  have u1: "untouched s s1" and t1: "tick s1 = Suc (tick s)"
    using get_metric_values_untouched [of s w m "''rate(minio_network_send_bytes_total[5m])''"]
      get_metric_values_tick [of w m "''rate(minio_network_send_bytes_total[5m])''" s] send
    by simp_all
  have u2: "untouched s1 s2" and t2: "tick s2 = Suc (tick s1)"
    using get_metric_values_untouched [of s1 w m "''rate(minio_network_receive_bytes_total[5m])''"]
      get_metric_values_tick [of w m "''rate(minio_network_receive_bytes_total[5m])''" s1] recv
    by simp_all
  show "untouched s s2"
    using u1 u2 by (rule untouched_trans)
  show "tick s2 = Suc (Suc (tick s))"
    using t1 t2 by simp
  show "check_network_traffic w m s =
             (if sv = [] \<or> rv = [] then Return () s2
              else and_then (check_network_signal w m (''Network Send'', sv))
                     (\<lambda>_. check_network_signal w m (''Network Receive'', rv)) s2)"
    by (simp add: check_network_traffic_def and_then_Return_right
        and_then_Return_eq
          [where f = "get_metric_values w m ''rate(minio_network_send_bytes_total[5m])''"
             and s = s, OF send]
        and_then_Return_eq
          [where f = "get_metric_values w m ''rate(minio_network_receive_bytes_total[5m])''"
             and s = s1, OF recv])
next
  show "network_alert_key ''Network Send'' = ''network_send''"
    by (rule network_alert_key_send)
  show "network_alert_key ''Network Receive'' = ''network_receive''"
    by (rule network_alert_key_receive)
  show "attempts_since s3 (result_state (check_network_signal w m (name, vs) s3)) \<noteq> []
        \<longleftrightarrow> fst (zscore_anomaly (numpy_sum w) vs (zscore_threshold m))
            \<and> clock w (tick s3)
                - (case alert_cooldown_dict s3 (network_alert_key name) of
                     None \<Rightarrow> 0 | Some t \<Rightarrow> t)
              > alert_cooldown m"
    using network_signal_decision [of s3 w m name vs] by blast
  show "\<forall>k. k \<noteq> network_alert_key name \<longrightarrow>
          alert_cooldown_dict (result_state (check_network_signal w m (name, vs) s3)) k
            = alert_cooldown_dict s3 k"
    using network_signal_decision [of s3 w m name vs] by blast
qed

theorem empty_series_is_skipped_witness:
  "get_metric_values send_only_world reference_monitor
      ''rate(minio_network_send_bytes_total[5m])'' init_state
     = Return spike (init_state\<lparr>tick := 1\<rparr>)
   \<and> get_metric_values send_only_world reference_monitor
      ''rate(minio_network_receive_bytes_total[5m])'' (init_state\<lparr>tick := 1\<rparr>)
     = Return [] (init_state\<lparr>tick := 2\<rparr>)
   \<and> check_network_traffic send_only_world reference_monitor init_state
     = Return () (init_state\<lparr>tick := 2\<rparr>)
   \<and> untouched init_state (init_state\<lparr>tick := 2\<rparr>)
   \<and> ''network_receive'' \<noteq> network_alert_key ''Network Send''
   \<and> alert_cooldown_dict (result_state (check_network_signal send_only_world reference_monitor
           (''Network Send'', spike) (init_state\<lparr>tick := 2\<rparr>))) ''network_receive''
     = None"
proof -
  have q1: "get_metric_values send_only_world reference_monitor
      ''rate(minio_network_send_bytes_total[5m])'' init_state
     = Return spike (init_state\<lparr>tick := 1\<rparr>)"
    and q2: "get_metric_values send_only_world reference_monitor
      ''rate(minio_network_receive_bytes_total[5m])'' (init_state\<lparr>tick := 1\<rparr>)
     = Return [] (init_state\<lparr>tick := 2\<rparr>)"
    using send_only_queries by simp_all
  note inst = empty_series_is_skipped [where w = send_only_world and m = reference_monitor
      and s = init_state and ?s1.0 = "init_state\<lparr>tick := 1\<rparr>" and sv = spike and rv = "[]"
      and ?s2.0 = "init_state\<lparr>tick := 2\<rparr>" and ?s3.0 = "init_state\<lparr>tick := 2\<rparr>"
      and name = "''Network Send''" and vs = spike]
  have n: "''network_receive'' \<noteq> network_alert_key ''Network Send''"
    using inst by simp
  have c: "check_network_traffic send_only_world reference_monitor init_state
             = Return () (init_state\<lparr>tick := 2\<rparr>)"
    and u: "untouched init_state (init_state\<lparr>tick := 2\<rparr>)"
    using inst q1 q2 by simp_all
  have d: "alert_cooldown_dict (result_state (check_network_signal send_only_world
             reference_monitor (''Network Send'', spike) (init_state\<lparr>tick := 2\<rparr>)))
             ''network_receive'' = None"
    using inst n by (simp add: init_state_def)
  show ?thesis
    using q1 q2 c u n d by simp
qed

text \<open>
  Claim C9. Whatever the arguments and whatever the insight service does short of an
  interrupt by the user (a timeout, another exception, a status other than 200, a body
  without the expected text), \<open>generate_context\<close> returns a string of at most 250
  characters: the empty string on every failure, and on success the first 250 characters
  of the stripped text.
\<close>

theorem generate_context_total:
  assumes "openwebui_api w (tick s) (metric, current, expected, change) \<noteq> InsightInterrupt"
  shows "\<exists>text s'. generate_context w metric current expected change s = Return text s'
           \<and> length text \<le> 250
           \<and> text = (case openwebui_api w (tick s) (metric, current, expected, change) of
                       InsightResponse code (Content c) \<Rightarrow>
                         if code = 200 then take 250 (py_strip c) else []
                     | _ \<Rightarrow> [])
           \<and> alert_cooldown_dict s' = alert_cooldown_dict s
           \<and> notifications (trace s') = notifications (trace s)
           \<and> tick s' = Suc (tick s)"
  using assms
  by (auto simp: generate_context_def Let_def logger_def
      split: insight_reply.splits insight_payload.splits)

theorem generate_context_total_witness:
  "openwebui_api chatty_world (tick init_state) (''m'', 1, 2, None) \<noteq> InsightInterrupt
   \<and> generate_context chatty_world ''m'' 1 2 None init_state
       = Return [72, 105] (init_state\<lparr>tick := 1\<rparr>)
   \<and> generate_context chatty_world ''m'' 1 2 None (init_state\<lparr>tick := 1\<rparr>)
       = Return (replicate 250 65) (init_state\<lparr>tick := 2\<rparr>)
   \<and> generate_context chatty_world ''m'' 1 2 None (init_state\<lparr>tick := 2\<rparr>)
       = Return [] (logger WARNING ''OpenWebUI API error'' (init_state\<lparr>tick := 3\<rparr>))
   \<and> generate_context quiet_world ''m'' 1 2 None init_state
       = Return [] (logger WARNING ''OpenWebUI request timeout'' (init_state\<lparr>tick := 1\<rparr>))"
proof -
  have h: "openwebui_api chatty_world (tick init_state) (''m'', 1, 2, None) \<noteq> InsightInterrupt"
    by (simp add: chatty_world_def quiet_world_def init_state_def)
  show ?thesis
    using h generate_context_total [OF h]
    by (simp add: generate_context_def chatty_world_def quiet_world_def init_state_def
        py_strip_def py_isspace_def Let_def)
qed


end
